theory Spec2Isabelle
  imports Complex_Main "HOL-Library.Word"
begin

section \<open>The analyze-article-image edge function\<close>

text \<open>
  A shallow embedding of \<^verbatim>\<open>supabase/functions/analyze-article-image/index.ts\<close>:
  the request handler passed to \<^verbatim>\<open>Deno.serve\<close>, its image ingestion loop, the
  chunked base64 conversion, the construction of the \<^verbatim>\<open>AnalysisResult\<close> and the
  classification of errors of the AI phase; and of the \<^verbatim>\<open>catch\<close> block of
  \<^verbatim>\<open>analyzeProductImage\<close> in the client-side Gemini service.

  Conventions.
  \<^item> Text is a \<open>string\<close>. The binary string handed to \<^verbatim>\<open>btoa\<close> is a list of UTF-16
    code units (\<open>16 word\<close>), because \<^verbatim>\<open>btoa\<close> rejects code units above 255.
  \<^item> A JavaScript exception is a value: every function that can throw returns
    \<open>thrown + 'a\<close>, with \<open>Inl\<close> the thrown value.
  \<^item> The external collaborators (environment variables, the authentication service, the
    database, the URL parser, object storage, the AI service, \<^verbatim>\<open>JSON.parse\<close>) are the
    fields of the record \<open>env\<close>; every theorem holds for all of their behaviours.
  \<^item> \<^verbatim>\<open>console.log\<close> and \<^verbatim>\<open>console.error\<close> are not modelled, nor are the CORS
    headers, which are the same constant on every response.
\<close>

subsection \<open>JavaScript values\<close>

text \<open>
  A value produced by \<^verbatim>\<open>JSON.parse\<close> or \<^verbatim>\<open>req.json()\<close>. An object is the list of its
  own properties. Numbers are only copied and tested for zero, so they are reals.
\<close>

datatype json =
    JNull
  | JBool bool
  | JNum real
  | JStr string
  | JArr "json list"
  | JObj "(string \<times> json) list"

text \<open>
  A thrown value: an \<^verbatim>\<open>Error\<close> instance with its message, or any other value, given by
  what \<^verbatim>\<open>e?.message\<close> reads (\<open>None\<close> for \<^verbatim>\<open>undefined\<close>) and by \<^verbatim>\<open>String(e)\<close>.
  A message, when there is one, is a string, as it is for every \<^verbatim>\<open>Error\<close>.
\<close>

datatype thrown =
    ErrorObject string
  | OtherValue "string option" string

fun message_of :: "thrown \<Rightarrow> string option" where
  "message_of (ErrorObject m) = Some m"
| "message_of (OtherValue m s) = m"

text \<open>\<^verbatim>\<open>x || fallback\<close> on a string that may be \<^verbatim>\<open>undefined\<close> or \<^verbatim>\<open>null\<close>.\<close>

fun or_else :: "string option \<Rightarrow> string \<Rightarrow> string" where
  "or_else None d = d"
| "or_else (Some s) d = (if s = [] then d else s)"

text \<open>Truthiness of a string that may be \<^verbatim>\<open>undefined\<close> or \<^verbatim>\<open>null\<close>.\<close>

fun truthy_str :: "string option \<Rightarrow> bool" where
  "truthy_str None = False"
| "truthy_str (Some s) = (s \<noteq> [])"

fun truthy :: "json \<Rightarrow> bool" where
  "truthy JNull = False"
| "truthy (JBool b) = b"
| "truthy (JNum n) = (n \<noteq> 0)"
| "truthy (JStr s) = (s \<noteq> [])"
| "truthy (JArr xs) = True"
| "truthy (JObj kvs) = True"

text \<open>
  Reading a property \<^verbatim>\<open>v.k\<close> of a value other than \<^verbatim>\<open>null\<close>: on an object it is the
  own property or \<^verbatim>\<open>undefined\<close>. It is used only with the property names of the handler
  (\<^verbatim>\<open>imageUrls\<close>, \<^verbatim>\<open>title\<close>, ...), none of which is defined on the prototypes of
  objects, strings, numbers, booleans or arrays, so there it is \<^verbatim>\<open>undefined\<close>.
\<close>

fun read_prop :: "json \<Rightarrow> string \<Rightarrow> json option" where
  "read_prop (JObj kvs) k = map_of kvs k"
| "read_prop v k = None"

text \<open>The \<^verbatim>\<open>TypeError\<close> of reading the property \<open>k\<close> of \<^verbatim>\<open>null\<close>.\<close>

definition null_read :: "string \<Rightarrow> thrown" where
  "null_read k =
     ErrorObject (''Cannot read properties of null (reading '' @ [CHR 39] @ k @ [CHR 39] @ '')'')"

text \<open>\<^verbatim>\<open>s.includes(sub)\<close>.\<close>

fun str_includes :: "string \<Rightarrow> string \<Rightarrow> bool" where
  "str_includes [] sub = (sub = [])"
| "str_includes (c # cs) sub = (take (length sub) (c # cs) = sub \<or> str_includes cs sub)"

subsection \<open>Chunked base64 conversion (lines 165--174)\<close>

type_synonym u8 = "8 word"
type_synonym code_unit = "16 word"
type_synonym js_string = "code_unit list"

definition chunkSize :: nat where
  "chunkSize = 0x8000"

text \<open>\<^verbatim>\<open>uint8Array.subarray(b, e)\<close> for \<open>b \<le> e \<le> length\<close>.\<close>

definition subarray :: "u8 list \<Rightarrow> nat \<Rightarrow> nat \<Rightarrow> u8 list" where
  "subarray arr b e = take (e - b) (drop b arr)"

text \<open>\<^verbatim>\<open>String.fromCharCode.apply(null, Array.from(chunk))\<close>.\<close>

definition fromCharCode :: "u8 list \<Rightarrow> js_string" where
  "fromCharCode codes = map ucast codes"

text \<open>
  The loop \<^verbatim>\<open>for (let i = 0; i < uint8Array.length; i += chunkSize)\<close>, with the string
  built so far as accumulator.
\<close>

function chunk_loop :: "u8 list \<Rightarrow> nat \<Rightarrow> js_string \<Rightarrow> js_string" where
  "chunk_loop uint8Array i acc =
     (if i < length uint8Array
      then chunk_loop uint8Array (i + chunkSize)
             (acc @ fromCharCode
                      (subarray uint8Array i (min (i + chunkSize) (length uint8Array))))
      else acc)"
  by pat_completeness auto
termination
  by (relation "measure (\<lambda>(arr, i, acc). length arr - i)") (auto simp: chunkSize_def)

declare chunk_loop.simps [simp del]

text \<open>
  \<^verbatim>\<open>btoa\<close> and the base64 alphabet of RFC 4648, as the HTML standard defines them:
  \<^verbatim>\<open>btoa\<close> throws when a code unit exceeds 255 and otherwise encodes the code units as
  bytes, three bytes to four characters, padded with \<^verbatim>\<open>=\<close>.
\<close>

definition b64_alphabet :: string where
  "b64_alphabet = ''ABCDEFGHIJKLMNOPQRSTUVWXYZabcdefghijklmnopqrstuvwxyz0123456789+/''"

definition b64_char :: "nat \<Rightarrow> char" where
  "b64_char n = b64_alphabet ! n"

fun base64_encode :: "u8 list \<Rightarrow> string" where
  "base64_encode [] = []"
| "base64_encode [a] =
     (let n = unat a * 65536
      in [b64_char (n div 262144), b64_char (n div 4096 mod 64), CHR ''='', CHR ''=''])"
| "base64_encode [a, b] =
     (let n = unat a * 65536 + unat b * 256
      in [b64_char (n div 262144), b64_char (n div 4096 mod 64),
          b64_char (n div 64 mod 64), CHR ''=''])"
| "base64_encode (a # b # c # rest) =
     (let n = unat a * 65536 + unat b * 256 + unat c
      in [b64_char (n div 262144), b64_char (n div 4096 mod 64),
          b64_char (n div 64 mod 64), b64_char (n mod 64)] @ base64_encode rest)"

definition btoa :: "js_string \<Rightarrow> thrown + string" where
  "btoa s =
     (if list_all (\<lambda>c. c \<le> 0xFF) s
      then Inr (base64_encode (map ucast s))
      else Inl (ErrorObject
             ''The string to be encoded contains characters outside of the Latin1 range.''))"

text \<open>Lines 168--174: the chunked conversion of the downloaded bytes.\<close>

definition chunked_base64 :: "u8 list \<Rightarrow> thrown + string" where
  "chunked_base64 uint8Array = btoa (chunk_loop uint8Array 0 [])"

text \<open>
  The conversion the chunked one replaces: one \<^verbatim>\<open>String.fromCharCode\<close> call on the whole
  buffer, followed by the same \<^verbatim>\<open>btoa\<close>.
\<close>

definition naive_base64 :: "u8 list \<Rightarrow> thrown + string" where
  "naive_base64 uint8Array = btoa (fromCharCode uint8Array)"

text \<open>
  The decoder of RFC 4648 for padded base64 text: four characters to three bytes, a final
  group with one or two \<^verbatim>\<open>=\<close> to two bytes or one. \<open>None\<close> for text that is not base64.
\<close>

fun index_of :: "'a \<Rightarrow> 'a list \<Rightarrow> nat option" where
  "index_of x [] = None"
| "index_of x (y # ys) = (if x = y then Some 0 else map_option Suc (index_of x ys))"

definition b64_index :: "char \<Rightarrow> nat option" where
  "b64_index c = index_of c b64_alphabet"

fun base64_decode :: "string \<Rightarrow> u8 list option" where
  "base64_decode [] = Some []"
| "base64_decode (c1 # c2 # c3 # c4 # rest) =
     (case (b64_index c1, b64_index c2) of
        (Some s1, Some s2) \<Rightarrow>
          (if c3 = CHR ''=''
           then (if c4 = CHR ''='' \<and> rest = []
                 then Some [of_nat ((s1 * 64 + s2) div 16)]
                 else None)
           else (case b64_index c3 of
                   None \<Rightarrow> None
                 | Some s3 \<Rightarrow>
                     (if c4 = CHR ''=''
                      then (if rest = []
                            then (let n = s1 * 4096 + s2 * 64 + s3
                                  in Some [of_nat (n div 1024), of_nat (n div 4 mod 256)])
                            else None)
                      else (case b64_index c4 of
                              None \<Rightarrow> None
                            | Some s4 \<Rightarrow>
                                (let n = s1 * 262144 + s2 * 4096 + s3 * 64 + s4
                                 in map_option
                                      (\<lambda>bs. of_nat (n div 65536) # of_nat (n div 256 mod 256)
                                             # of_nat (n mod 256) # bs)
                                      (base64_decode rest))))))
      | _ \<Rightarrow> None)"
| "base64_decode cs = None"


subsection \<open>The ingestion loop (lines 134--192)\<close>

text \<open>
  What \<^verbatim>\<open>supabase.storage.from("article-photos").download(filePath)\<close> resolves to: the
  \<^verbatim>\<open>Blob\<close> or \<^verbatim>\<open>null\<close>, and the message of the error or \<open>None\<close> for no error. A
  \<^verbatim>\<open>Blob\<close> is what \<^verbatim>\<open>arrayBuffer()\<close> resolves to, the bytes or an exception, and its
  \<^verbatim>\<open>type\<close>.
\<close>

record blob =
  arrayBuffer :: "thrown + u8 list"
  blob_type :: string

record download_reply =
  fileData :: "blob option"
  downloadError :: "string option"

text \<open>An element of \<^verbatim>\<open>imageParts\<close>: the \<^verbatim>\<open>inlineData\<close> of one image.\<close>

record image_part =
  mimeType :: string
  data :: string

text \<open>What \<^verbatim>\<open>supabase.auth.getUser()\<close> resolves to: the user's id and the error, if any.\<close>

record auth_reply =
  user :: "string option"
  userError :: "string option"

text \<open>A row of \<^verbatim>\<open>family_members\<close>, with its two nullable text columns.\<close>

record member =
  writing_style :: "string option"
  persona_id :: "string option"

text \<open>
  The value of \<^verbatim>\<open>writingStyle\<close>: a text, or the property of \<^verbatim>\<open>Object.prototype\<close> of
  the given name, which \<^verbatim>\<open>personaStyles[persona_id]\<close> reads for a \<^verbatim>\<open>persona_id\<close> such
  as \<^verbatim>\<open>constructor\<close>.
\<close>

datatype style =
    StyleText string
  | PrototypeProperty string

text \<open>What is sent to \<^verbatim>\<open>generateContent\<close>; the model name and the schema are constants.\<close>

record ai_request =
  prompt :: string
  parts :: "image_part list"

text \<open>
  The collaborators of one request.
  \<^item> \<open>getUser\<close>: \<^verbatim>\<open>createClient\<close> followed by \<^verbatim>\<open>auth.getUser()\<close>, from the
    \<^verbatim>\<open>Authorization\<close> header.
  \<^item> \<open>family_members\<close>: the query for the seller's row, from \<^verbatim>\<open>sellerId\<close> and the user's id.
  \<^item> \<open>toString\<close>: the conversion of a value that is not a string to a string, or what
    the conversion throws: it throws on an object that has an own property
    \<^verbatim>\<open>toString\<close>, such as \<^verbatim>\<open>{"toString":1}\<close>, and on an array that holds one.
  \<^item> \<open>parseUrl\<close>: \<^verbatim>\<open>new URL(url).pathname\<close>, or what the constructor throws.
  \<^item> \<open>download\<close>: the download issued for the reference at a position of \<^verbatim>\<open>imageUrls\<close>,
    so that two downloads of one path may differ.
  \<^item> \<open>buildPrompt\<close>: lines 210--366, which only build the text of the prompt from
    \<^verbatim>\<open>isLot\<close>, \<^verbatim>\<open>lotArticles\<close>, \<^verbatim>\<open>imageUrls.length\<close> and \<^verbatim>\<open>writingStyle\<close> and may throw
    on a malformed \<^verbatim>\<open>lotArticles\<close>. No property below depends on the text, so this step
    is a parameter too: it returns some text or throws, and the properties hold either way.
  \<^item> \<open>generateContent\<close>: the construction of the client and the call; it resolves to
    \<^verbatim>\<open>response.text\<close>.
\<close>

record env =
  GEMINI_API_KEY :: "string option"
  getUser :: "string \<Rightarrow> thrown + auth_reply"
  family_members :: "json \<Rightarrow> string \<Rightarrow> thrown + member option"
  toString :: "json \<Rightarrow> thrown + string"
  parseUrl :: "string \<Rightarrow> thrown + string"
  download :: "nat \<Rightarrow> string \<Rightarrow> thrown + download_reply"
  buildPrompt :: "json option \<Rightarrow> json option \<Rightarrow> nat \<Rightarrow> style \<Rightarrow> thrown + string"
  generateContent :: "ai_request \<Rightarrow> thrown + string option"
  JSON_parse :: "string \<Rightarrow> thrown + json"

text \<open>
  The text of an element of \<^verbatim>\<open>imageUrls\<close>, as \<^verbatim>\<open>new URL(url)\<close> and \<^verbatim>\<open>${url}\<close> read it,
  or what the conversion throws. A string is its own text.
\<close>

definition ref_string :: "env \<Rightarrow> json \<Rightarrow> thrown + string" where
  "ref_string env v = (case v of JStr s \<Rightarrow> Inr s | _ \<Rightarrow> toString env v)"

text \<open>
  \<^verbatim>\<open>pathname.match(/\/storage\/v1\/object\/public\/article-photos\/(.+)$/)\<close>: the first
  group of the leftmost match, that is what follows the leftmost occurrence of the prefix
  whose remainder is not empty and has no line terminator.
\<close>

definition storage_prefix :: string where
  "storage_prefix = ''/storage/v1/object/public/article-photos/''"

definition line_terminator :: "char \<Rightarrow> bool" where
  "line_terminator c = (c = CHR 0x0A \<or> c = CHR 0x0D)"

fun pathMatch :: "string \<Rightarrow> string option" where
  "pathMatch [] = None"
| "pathMatch (c # cs) =
     (let rest = drop (length storage_prefix) (c # cs)
      in if take (length storage_prefix) (c # cs) = storage_prefix \<and> rest \<noteq> []
            \<and> \<not> list_ex line_terminator rest
         then Some rest
         else pathMatch cs)"

text \<open>The message of the \<^verbatim>\<open>catch (imgError)\<close> block.\<close>

definition error_processing :: "string \<Rightarrow> thrown \<Rightarrow> string" where
  "error_processing url imgError =
     ''Error processing image '' @ url @ '': ''
       @ (case imgError of ErrorObject m \<Rightarrow> m | OtherValue m s \<Rightarrow> s)"

text \<open>
  One iteration of the loop: the part it pushes, or the message it pushes, or the
  exception that leaves the \<^verbatim>\<open>catch (imgError)\<close> block. When the conversion of \<^verbatim>\<open>url\<close>
  to a string throws in \<^verbatim>\<open>new URL(url)\<close> on line 141, the \<^verbatim>\<open>catch\<close> block converts
  \<^verbatim>\<open>url\<close> again in \<^verbatim>\<open>${url}\<close> on line 188, which throws again, out of the loop.
\<close>

datatype image_outcome =
    is_Pushed: Pushed image_part
  | is_Failed: Failed string
  | Aborted thrown

definition process_image :: "env \<Rightarrow> nat \<Rightarrow> json \<Rightarrow> image_outcome" where
  "process_image env i v =
     (case ref_string env v of
        Inl ex \<Rightarrow> Aborted ex
      | Inr url \<Rightarrow>
       (case parseUrl env url of
           Inl imgError \<Rightarrow> Failed (error_processing url imgError)
         | Inr pathname \<Rightarrow>
             (case pathMatch pathname of
                None \<Rightarrow> Failed (''Invalid storage URL format: '' @ url)
              | Some filePath \<Rightarrow>
                  (case download env i filePath of
                     Inl imgError \<Rightarrow> Failed (error_processing url imgError)
                   | Inr reply \<Rightarrow>
                       (case (downloadError reply, fileData reply) of
                          (None, Some file) \<Rightarrow>
                            (case arrayBuffer file of
                               Inl imgError \<Rightarrow> Failed (error_processing url imgError)
                             | Inr uint8Array \<Rightarrow>
                                 (case chunked_base64 uint8Array of
                                    Inl imgError \<Rightarrow> Failed (error_processing url imgError)
                                  | Inr base64 \<Rightarrow>
                                      Pushed \<lparr>mimeType = (if blob_type file = []
                                                          then ''image/jpeg''
                                                          else blob_type file),
                                              data = base64\<rparr>))
                        | _ \<Rightarrow>
                            Failed (''Failed to download '' @ filePath @ '': ''
                                     @ or_else (downloadError reply) ''Unknown error''))))))"

text \<open>
  The loop \<^verbatim>\<open>for (const url of imageUrls)\<close> from position \<open>i\<close>, on the pair of
  \<^verbatim>\<open>imageParts\<close> and \<^verbatim>\<open>errors\<close>: the pair when the loop ends, or the exception that
  leaves it.
\<close>

fun ingest_loop ::
  "env \<Rightarrow> nat \<Rightarrow> json list \<Rightarrow> image_part list \<times> string list
     \<Rightarrow> thrown + image_part list \<times> string list" where
  "ingest_loop env i [] (imageParts, errors) = Inr (imageParts, errors)"
| "ingest_loop env i (url # urls) (imageParts, errors) =
     (case process_image env i url of
        Pushed part \<Rightarrow> ingest_loop env (Suc i) urls (imageParts @ [part], errors)
      | Failed errMsg \<Rightarrow> ingest_loop env (Suc i) urls (imageParts, errors @ [errMsg])
      | Aborted ex \<Rightarrow> Inl ex)"

definition ingest :: "env \<Rightarrow> json list \<Rightarrow> thrown + image_part list \<times> string list" where
  "ingest env imageUrls = ingest_loop env 0 imageUrls ([], [])"


subsection \<open>The AI phase (lines 370--477)\<close>

text \<open>
  The \<^verbatim>\<open>AnalysisResult\<close> object of lines 435--452. The type annotations of the source
  are erased when it runs: each field holds whatever value the parsed response has under
  that name, or \<open>None\<close> for \<^verbatim>\<open>undefined\<close>.
\<close>

record analysis_result =
  title :: "json option"
  description :: "json option"
  brand :: "json option"
  category :: "json option"
  subcategory :: "json option"
  color :: "json option"
  material :: "json option"
  size' :: "json option"
  condition :: "json option"
  season :: "json option"
  suggestedPeriod :: "json option"
  estimatedPrice :: "json option"
  seoKeywords :: "json option"
  hashtags :: "json option"
  searchTerms :: "json option"
  confidenceScore :: "json option"

definition analysisResult_of :: "json \<Rightarrow> thrown + analysis_result" where
  "analysisResult_of parsedResponse =
     (if parsedResponse = JNull then Inl (null_read ''title'')
      else Inr \<lparr>title = read_prop parsedResponse ''title'',
                description = read_prop parsedResponse ''description'',
                brand = read_prop parsedResponse ''brand'',
                category = read_prop parsedResponse ''category'',
                subcategory = read_prop parsedResponse ''subcategory'',
                color = read_prop parsedResponse ''color'',
                material = read_prop parsedResponse ''material'',
                size' = read_prop parsedResponse ''size'',
                condition = read_prop parsedResponse ''condition'',
                season = read_prop parsedResponse ''season'',
                suggestedPeriod = read_prop parsedResponse ''suggestedPeriod'',
                estimatedPrice = read_prop parsedResponse ''estimatedPrice'',
                seoKeywords = read_prop parsedResponse ''seoKeywords'',
                hashtags = read_prop parsedResponse ''hashtags'',
                searchTerms = read_prop parsedResponse ''searchTerms'',
                confidenceScore = read_prop parsedResponse ''confidenceScore''\<rparr>)"

text \<open>
  Lines 432--452, which the specification calls \<open>normalize\<close>: \<^verbatim>\<open>JSON.parse\<close> of the text
  of the response, then the construction of the result.
\<close>

definition normalize_response :: "(string \<Rightarrow> thrown + json) \<Rightarrow> string \<Rightarrow> thrown + analysis_result" where
  "normalize_response parse rawText =
     (case parse rawText of
        Inl ex \<Rightarrow> Inl ex
      | Inr parsedResponse \<Rightarrow> analysisResult_of parsedResponse)"

text \<open>The body of a response, before \<^verbatim>\<open>JSON.stringify\<close>.\<close>

datatype resp_body =
    NoBody
  | ErrorBody string "string list option"
  | ResultBody analysis_result

record http_response =
  status :: nat
  body :: resp_body

text \<open>\<^verbatim>\<open>geminiError?.message?.includes(sub)\<close>.\<close>

definition message_includes :: "thrown \<Rightarrow> string \<Rightarrow> bool" where
  "message_includes ex sub =
     (case message_of ex of None \<Rightarrow> False | Some m \<Rightarrow> str_includes m sub)"

definition quota_message :: string where
  "quota_message =
     ''Quota Gemini depasse. Veuillez reessayer plus tard ou activer la facturation sur Google Cloud.''"

definition api_key_message :: string where
  "api_key_message =
     ''Cle API Gemini invalide ou manquante. Verifiez GEMINI_API_KEY dans les secrets Supabase.''"

definition gemini_base_message :: string where
  "gemini_base_message = ''Erreur lors de l'analyse avec Gemini''"

text \<open>The \<^verbatim>\<open>errorMessage\<close> of the \<^verbatim>\<open>catch (geminiError)\<close> block, lines 457--468.\<close>

definition errorMessage :: "thrown \<Rightarrow> string" where
  "errorMessage geminiError =
     (if message_includes geminiError ''quota''
         \<or> message_includes geminiError ''RESOURCE_EXHAUSTED''
      then quota_message
      else if message_includes geminiError ''API key''
      then api_key_message
      else (case message_of geminiError of
              None \<Rightarrow> gemini_base_message
            | Some m \<Rightarrow> (if m = [] then gemini_base_message
                        else gemini_base_message @ '': '' @ m)))"

text \<open>The response of lines 421--430, when \<^verbatim>\<open>response.text\<close> is empty or missing.\<close>

definition empty_response :: http_response where
  "empty_response =
     \<lparr>status = 500,
      body = ErrorBody ''L'IA n'a pas pu analyser les images. Veuillez reessayer.'' None\<rparr>"

text \<open>The \<^verbatim>\<open>try\<close> block of lines 370--456: what it returns, or what it throws.\<close>

definition ai_try :: "env \<Rightarrow> ai_request \<Rightarrow> thrown + http_response" where
  "ai_try env request =
     (case generateContent env request of
        Inl ex \<Rightarrow> Inl ex
      | Inr None \<Rightarrow> Inr empty_response
      | Inr (Some text) \<Rightarrow>
          (if text = [] then Inr empty_response
           else (case normalize_response (JSON_parse env) text of
                   Inl ex \<Rightarrow> Inl ex
                 | Inr analysisResult \<Rightarrow>
                     Inr \<lparr>status = 200, body = ResultBody analysisResult\<rparr>)))"

text \<open>The \<^verbatim>\<open>try\<close> block with its \<^verbatim>\<open>catch (geminiError)\<close>.\<close>

definition ai_phase :: "env \<Rightarrow> ai_request \<Rightarrow> http_response" where
  "ai_phase env request =
     (case ai_try env request of
        Inl geminiError \<Rightarrow>
          \<lparr>status = 500, body = ErrorBody (errorMessage geminiError) None\<rparr>
      | Inr response \<Rightarrow> response)"

text \<open>
  The \<^verbatim>\<open>catch\<close> block of \<^verbatim>\<open>analyzeProductImage\<close> in the client-side service: the
  value it throws. The accented letters are the Latin-1 characters of the source text.
\<close>

definition client_quota_message :: string where
  "client_quota_message =
     ''Quota Gemini d'' @ [CHR 0xE9] @ ''pass'' @ [CHR 0xE9] @ '' pour l'analyse. Veuillez r''
       @ [CHR 0xE9] @ ''essayer plus tard ou activer la facturation sur Google Cloud.''"

definition client_api_key_message :: string where
  "client_api_key_message =
     ''Cl'' @ [CHR 0xE9] @ '' API Gemini invalide ou manquante. V'' @ [CHR 0xE9]
       @ ''rifiez VITE_GEMINI_API_KEY dans votre fichier .env''"

definition analyzeProductImage_catch :: "thrown \<Rightarrow> thrown" where
  "analyzeProductImage_catch error =
     (if message_includes error ''quota'' \<or> message_includes error ''RESOURCE_EXHAUSTED''
      then ErrorObject client_quota_message
      else if message_includes error ''API key''
      then ErrorObject client_api_key_message
      else error)"

subsection \<open>The handler (lines 32--488)\<close>

record request =
  req_method :: string
  authorization :: "string option"
  body_json :: "thrown + json"

text \<open>What the handler does: its response, and the requests it sent to the AI service.\<close>

record outcome =
  response :: http_response
  ai_calls :: "ai_request list"

definition respond :: "nat \<Rightarrow> resp_body \<Rightarrow> outcome" where
  "respond st b = \<lparr>response = \<lparr>status = st, body = b\<rparr>, ai_calls = []\<rparr>"

text \<open>Lines 92--120: the writing style of the seller.\<close>

definition default_style :: string where
  "default_style = ''Description detaillee et attractive''"

definition personaStyles :: "(string \<times> string) list" where
  "personaStyles =
     [(''minimalist'',
       ''Descriptions courtes, claires et efficaces. Style minimaliste avec uniquement l'essentiel.''),
      (''enthusiast'',
       ''Dynamique, positive et pleine d'energie ! Utilise des points d'exclamation et un ton enthousiaste.''),
      (''professional'',
       ''Experte, technique et detaillee. Descriptions precises et professionnelles.''),
      (''friendly'',
       ''Chaleureuse, accessible et decontractee. Ton amical comme entre amis.''),
      (''elegant'',
       ''Raffinee, sophistiquee et chic. Vocabulaire elegant et noble.''),
      (''eco_conscious'',
       ''Responsable avec focus sur la durabilite. Met en avant l'eco-responsabilite et la seconde vie des vetements.''),
      (''trendy'',
       ''Tendance et a la pointe de la mode. Utilise un vocabulaire fashion et actuel.''),
      (''storyteller'',
       ''Raconte une histoire autour de l'article. Cree une connexion emotionnelle avec le vetement.''),
      (''custom'', default_style)]"

text \<open>
  The names of the properties of \<^verbatim>\<open>Object.prototype\<close>, which the object literal
  \<^verbatim>\<open>personaStyles\<close> inherits. Each of them is a function or an object, hence truthy.
\<close>

definition object_prototype_names :: "string list" where
  "object_prototype_names =
     [''constructor'', ''__defineGetter__'', ''__defineSetter__'', ''hasOwnProperty'',
      ''__lookupGetter__'', ''__lookupSetter__'', ''isPrototypeOf'',
      ''propertyIsEnumerable'', ''toString'', ''valueOf'', ''__proto__'',
      ''toLocaleString'']"

text \<open>
  \<^verbatim>\<open>personaStyles[persona_id] || writingStyle\<close> under \<^verbatim>\<open>if (familyMember.persona_id)\<close>:
  the own property, else the inherited one, else the default.
\<close>

definition persona_style :: "string option \<Rightarrow> style" where
  "persona_style pid =
     (case pid of
        None \<Rightarrow> StyleText default_style
      | Some p \<Rightarrow>
          (if p = [] then StyleText default_style
           else (case map_of personaStyles p of
                   Some s \<Rightarrow> StyleText (if s = [] then default_style else s)
                 | None \<Rightarrow>
                     (if p \<in> set object_prototype_names then PrototypeProperty p
                      else StyleText default_style))))"

definition writingStyle_of :: "member option \<Rightarrow> style" where
  "writingStyle_of familyMember =
     (case familyMember of
        None \<Rightarrow> StyleText default_style
      | Some m \<Rightarrow>
          (case writing_style m of
             Some ws \<Rightarrow> (if ws \<noteq> [] then StyleText ws else persona_style (persona_id m))
           | None \<Rightarrow> persona_style (persona_id m)))"

text \<open>The \<^verbatim>\<open>TypeError\<close> of destructuring \<^verbatim>\<open>null\<close> on line 90.\<close>

definition destructure_error :: thrown where
  "destructure_error =
     ErrorObject (''Cannot destructure property 'imageUrls' of '(intermediate value)' as it is null.'')"

text \<open>Lines 94--101: the row of the seller, looked up when \<^verbatim>\<open>sellerId\<close> is truthy.\<close>

definition lookup_member :: "env \<Rightarrow> json option \<Rightarrow> string \<Rightarrow> thrown + member option" where
  "lookup_member env sellerId uid =
     (case sellerId of
        None \<Rightarrow> Inr None
      | Some s \<Rightarrow> (if truthy s then family_members env s uid else Inr None))"

text \<open>
  Lines 134--477, for a non-empty array \<^verbatim>\<open>imageUrls\<close>: the loop, the guard on
  \<^verbatim>\<open>imageParts.length === 0\<close>, the prompt and the AI phase. An exception that leaves
  the loop goes to the outer \<^verbatim>\<open>catch\<close>.
\<close>

definition analyze_images ::
  "env \<Rightarrow> json list \<Rightarrow> json option \<Rightarrow> json option \<Rightarrow> style \<Rightarrow> thrown + outcome" where
  "analyze_images env imageUrls isLot lotArticles writingStyle =
     (case ingest env imageUrls of
        Inl ex \<Rightarrow> Inl ex
      | Inr (imageParts, errors) \<Rightarrow>
          (if imageParts = []
           then Inr (respond 400
                  (ErrorBody ''Impossible de charger les images depuis le stockage.''
                     (Some (take 3 errors))))
           else (case buildPrompt env isLot lotArticles (length imageUrls) writingStyle of
                   Inl ex \<Rightarrow> Inl ex
                 | Inr p \<Rightarrow>
                     Inr \<lparr>response = ai_phase env \<lparr>prompt = p, parts = imageParts\<rparr>,
                          ai_calls = [\<lparr>prompt = p, parts = imageParts\<rparr>]\<rparr>)))"

text \<open>
  Lines 90--477 after authentication, for the user's id: what the \<^verbatim>\<open>try\<close> block returns,
  or what it throws to the outer \<^verbatim>\<open>catch\<close>.
\<close>

definition analyze :: "env \<Rightarrow> request \<Rightarrow> string \<Rightarrow> thrown + outcome" where
  "analyze env req uid =
     (case body_json req of
        Inl ex \<Rightarrow> Inl ex
      | Inr b \<Rightarrow>
          (if b = JNull then Inl destructure_error
           else (case lookup_member env (read_prop b ''sellerId'') uid of
                   Inl ex \<Rightarrow> Inl ex
                 | Inr familyMember \<Rightarrow>
                     (case read_prop b ''imageUrls'' of
                        Some (JArr (u # us)) \<Rightarrow>
                          analyze_images env (u # us) (read_prop b ''isLot'')
                            (read_prop b ''lotArticles'') (writingStyle_of familyMember)
                      | _ \<Rightarrow>
                          Inr (respond 400
                                (ErrorBody ''Au moins une URL d'image est requise'' None))))))"

text \<open>Lines 40--88: the body of the outer \<^verbatim>\<open>try\<close>.\<close>

definition try_body :: "env \<Rightarrow> request \<Rightarrow> thrown + outcome" where
  "try_body env req =
     (if \<not> truthy_str (GEMINI_API_KEY env)
      then Inr (respond 500
             (ErrorBody
                ''La cle API Gemini n'est pas configuree. Veuillez configurer GEMINI_API_KEY dans les secrets de votre projet Supabase.''
                None))
      else (case authorization req of
              None \<Rightarrow> Inr (respond 401 (ErrorBody ''Authorization header manquant'' None))
            | Some authHeader \<Rightarrow>
                (if authHeader = []
                 then Inr (respond 401 (ErrorBody ''Authorization header manquant'' None))
                 else (case getUser env authHeader of
                         Inl ex \<Rightarrow> Inl ex
                       | Inr reply \<Rightarrow>
                           (case (userError reply, user reply) of
                              (None, Some uid) \<Rightarrow> analyze env req uid
                            | _ \<Rightarrow>
                                Inr (respond 401
                                      (ErrorBody ''Utilisateur non authentifie'' None)))))))"

text \<open>The handler: the \<^verbatim>\<open>OPTIONS\<close> preflight, then the \<^verbatim>\<open>try\<close> with the outer \<^verbatim>\<open>catch\<close>.\<close>

definition handler :: "env \<Rightarrow> request \<Rightarrow> outcome" where
  "handler env req =
     (if req_method req = ''OPTIONS'' then respond 200 NoBody
      else (case try_body env req of
              Inl error \<Rightarrow>
                respond 500
                  (ErrorBody (''Erreur serveur: '' @ or_else (message_of error) ''Unknown error'')
                     None)
            | Inr out \<Rightarrow> out))"


section \<open>Notions used to state the properties\<close>

subsection \<open>Well-formed and fetchable references\<close>

text \<open>
  A reference is convertible when its conversion to a string does not throw; every
  string is. It is well-formed when, moreover, the URL parser accepts its text and the
  path matches the storage pattern. The reference at position \<open>i\<close> is fetchable when,
  moreover, its download resolves with a file and no error, and the bytes of the file
  can be read.
\<close>

definition convertible :: "env \<Rightarrow> json \<Rightarrow> bool" where
  "convertible env v = (case ref_string env v of Inl ex \<Rightarrow> False | Inr url \<Rightarrow> True)"

definition well_formed :: "env \<Rightarrow> json \<Rightarrow> bool" where
  "well_formed env v =
     (case ref_string env v of
        Inl ex \<Rightarrow> False
      | Inr url \<Rightarrow>
          (case parseUrl env url of
             Inl ex \<Rightarrow> False
           | Inr pathname \<Rightarrow> pathMatch pathname \<noteq> None))"

definition fetchable :: "env \<Rightarrow> nat \<Rightarrow> json \<Rightarrow> bool" where
  "fetchable env i v =
     (case ref_string env v of
        Inl ex \<Rightarrow> False
      | Inr url \<Rightarrow>
       (case parseUrl env url of
        Inl ex \<Rightarrow> False
      | Inr pathname \<Rightarrow>
          (case pathMatch pathname of
             None \<Rightarrow> False
           | Some filePath \<Rightarrow>
               (case download env i filePath of
                  Inl ex \<Rightarrow> False
                | Inr reply \<Rightarrow>
                    (case (downloadError reply, fileData reply) of
                       (None, Some file) \<Rightarrow>
                         (case arrayBuffer file of Inl ex \<Rightarrow> False | Inr uint8Array \<Rightarrow> True)
                     | _ \<Rightarrow> False)))))"

text \<open>The positions of a batch whose reference is fetchable, and the others, in input order.\<close>

definition fetchable_positions :: "env \<Rightarrow> json list \<Rightarrow> nat list" where
  "fetchable_positions env imageUrls =
     filter (\<lambda>i. fetchable env i (imageUrls ! i)) [0..<length imageUrls]"

definition failing_positions :: "env \<Rightarrow> json list \<Rightarrow> nat list" where
  "failing_positions env imageUrls =
     filter (\<lambda>i. \<not> fetchable env i (imageUrls ! i)) [0..<length imageUrls]"

text \<open>The parts and the messages of a list of outcomes, in order.\<close>

fun pushed_parts :: "image_outcome list \<Rightarrow> image_part list" where
  "pushed_parts [] = []"
| "pushed_parts (Pushed part # os) = part # pushed_parts os"
| "pushed_parts (Failed errMsg # os) = pushed_parts os"
| "pushed_parts (Aborted ex # os) = pushed_parts os"

fun failed_messages :: "image_outcome list \<Rightarrow> string list" where
  "failed_messages [] = []"
| "failed_messages (Pushed part # os) = failed_messages os"
| "failed_messages (Failed errMsg # os) = errMsg # failed_messages os"
| "failed_messages (Aborted ex # os) = failed_messages os"

subsection \<open>Structured responses\<close>

text \<open>The error strings of the handler that do not depend on the request.\<close>

definition fixed_messages :: "string list" where
  "fixed_messages =
     [''La cle API Gemini n'est pas configuree. Veuillez configurer GEMINI_API_KEY dans les secrets de votre projet Supabase.'',
      ''Authorization header manquant'',
      ''Utilisateur non authentifie'',
      ''Au moins une URL d'image est requise'',
      ''Impossible de charger les images depuis le stockage.'',
      ''L'IA n'a pas pu analyser les images. Veuillez reessayer.'',
      quota_message,
      api_key_message,
      gemini_base_message]"

definition starts_with :: "string \<Rightarrow> string \<Rightarrow> bool" where
  "starts_with s p = (take (length p) s = p)"

text \<open>
  A response is structured when it is a result with status 200, or an error body with
  status 400, 401 or 500 whose error string is a fixed message or a prefix
  \<^verbatim>\<open>Erreur serveur: \<close> or \<^verbatim>\<open>Erreur lors de l'analyse avec Gemini: \<close> followed by the
  message of an exception, and whose details, if any, are at most three.
\<close>

definition structured :: "http_response \<Rightarrow> bool" where
  "structured r =
     (case body r of
        NoBody \<Rightarrow> False
      | ResultBody analysisResult \<Rightarrow> status r = 200
      | ErrorBody e details \<Rightarrow>
          (status r = 400 \<or> status r = 401 \<or> status r = 500)
          \<and> (e \<in> set fixed_messages
               \<or> starts_with e ''Erreur serveur: ''
               \<or> starts_with e (gemini_base_message @ '': ''))
          \<and> (case details of None \<Rightarrow> True | Some ds \<Rightarrow> length ds \<le> 3))"

subsection \<open>A concrete environment and concrete requests\<close>

text \<open>
  An environment on which the properties are instantiated. Its URL parser is a stand-in
  that agrees with \<^verbatim>\<open>new URL\<close> on the references used here: the path of an
  \<^verbatim>\<open>https\<close> URL without query or fragment, and a \<^verbatim>\<open>TypeError\<close> for text without a
  scheme. Its conversion to a string is that of objects, \<^verbatim>\<open>null\<close> and booleans: an
  object with an own property \<^verbatim>\<open>toString\<close> throws, any other object is
  \<^verbatim>\<open>[object Object]\<close>; numbers and arrays are not used here. Storage holds two files.
  The JSON parser knows the texts used here.
\<close>

definition sample_toString :: "json \<Rightarrow> thrown + string" where
  "sample_toString v =
     (case v of
        JNull \<Rightarrow> Inr ''null''
      | JBool b \<Rightarrow> Inr (if b then ''true'' else ''false'')
      | JObj kvs \<Rightarrow>
          (if map_of kvs ''toString'' = None then Inr ''[object Object]''
           else Inl (ErrorObject ''Cannot convert object to primitive value''))
      | _ \<Rightarrow> Inr [])"

definition sample_parseUrl :: "string \<Rightarrow> thrown + string" where
  "sample_parseUrl url =
     (if take 8 url = ''https://''
      then Inr (dropWhile (\<lambda>c. c \<noteq> CHR ''/'') (drop 8 url))
      else Inl (ErrorObject (''Invalid URL: '' @ [CHR 39] @ url @ [CHR 39])))"

definition sample_download :: "nat \<Rightarrow> string \<Rightarrow> thrown + download_reply" where
  "sample_download i filePath =
     (if filePath = ''u1/a.png''
      then Inr \<lparr>fileData = Some \<lparr>arrayBuffer = Inr [0x4D, 0x61, 0x6E],
                                    blob_type = ''image/png''\<rparr>,
                downloadError = None\<rparr>
      else if filePath = ''u1/b.jpg''
      then Inr \<lparr>fileData = Some \<lparr>arrayBuffer = Inr [0x4D, 0x61], blob_type = []\<rparr>,
                downloadError = None\<rparr>
      else Inr \<lparr>fileData = None, downloadError = Some ''Object not found''\<rparr>)"

definition sample_text :: string where
  \<open>sample_text =
     ''{"title":"T","description":"D","brand":"B","category":"tops","color":"Noir","condition":"good","season":"summer"}''\<close>

definition sample_object :: json where
  "sample_object =
     JObj [(''title'', JStr ''T''), (''description'', JStr ''D''), (''brand'', JStr ''B''),
           (''category'', JStr ''tops''), (''color'', JStr ''Noir''),
           (''condition'', JStr ''good''), (''season'', JStr ''summer'')]"

definition no_title_text :: string where
  \<open>no_title_text =
     ''{"description":"D","brand":"","category":"tops","color":"Noir","condition":"good","season":"summer"}''\<close>

definition no_title_object :: json where
  "no_title_object =
     JObj [(''description'', JStr ''D''), (''brand'', JStr []),
           (''category'', JStr ''tops''), (''color'', JStr ''Noir''),
           (''condition'', JStr ''good''), (''season'', JStr ''summer'')]"

definition sample_syntax_error :: thrown where
  "sample_syntax_error =
     ErrorObject ''Expected property name or '}' in JSON at position 1 (line 1 column 2)''"

definition sample_JSON_parse :: "string \<Rightarrow> thrown + json" where
  "sample_JSON_parse s =
     (if s = sample_text then Inr sample_object
      else if s = no_title_text then Inr no_title_object
      else if s = ''null'' then Inr JNull
      else Inl sample_syntax_error)"

definition sample_env_ai :: "(ai_request \<Rightarrow> thrown + string option) \<Rightarrow> env" where
  "sample_env_ai ai =
     \<lparr>GEMINI_API_KEY = Some ''key'',
      getUser = (\<lambda>authHeader.
        if authHeader = ''Bearer good'' then Inr \<lparr>user = Some ''u1'', userError = None\<rparr>
        else Inr \<lparr>user = None, userError = Some ''invalid JWT''\<rparr>),
      family_members = (\<lambda>sellerId uid. Inr None),
      toString = sample_toString,
      parseUrl = sample_parseUrl,
      download = sample_download,
      buildPrompt = (\<lambda>isLot lotArticles n writingStyle. Inr ''PROMPT''),
      generateContent = ai,
      JSON_parse = sample_JSON_parse\<rparr>"

text \<open>The environment whose AI service answers with the sample text.\<close>

definition sample_env :: env where
  "sample_env = sample_env_ai (\<lambda>request. Inr (Some sample_text))"

definition url_a :: json where
  "url_a = JStr ''https://x.supabase.co/storage/v1/object/public/article-photos/u1/a.png''"

definition url_b :: json where
  "url_b = JStr ''https://x.supabase.co/storage/v1/object/public/article-photos/u1/b.jpg''"

definition url_missing :: json where
  "url_missing = JStr ''https://x.supabase.co/storage/v1/object/public/article-photos/u1/gone.jpg''"

definition url_foreign :: json where
  "url_foreign = JStr ''https://example.com/photo.jpg''"

definition url_unparsable :: json where
  "url_unparsable = JStr ''not a url''"

text \<open>The element \<^verbatim>\<open>{"toString":1}\<close>, whose conversion to a string throws.\<close>

definition url_object :: json where
  "url_object = JObj [(''toString'', JNum 1)]"

definition sample_request :: "json list \<Rightarrow> request" where
  "sample_request imageUrls =
     \<lparr>req_method = ''POST'', authorization = Some ''Bearer good'',
      body_json = Inr (JObj [(''imageUrls'', JArr imageUrls)])\<rparr>"

section \<open>Properties\<close>

subsection \<open>The chunked conversion\<close>

lemma subarray_chunk:
  "i < length arr \<Longrightarrow> subarray arr i (min (i + n) (length arr)) = take n (drop i arr)"
  by (auto simp: subarray_def min_def)

text \<open>The loop appends to the accumulator the characters of the bytes from \<open>i\<close> on.\<close>

lemma chunk_loop_eq: "chunk_loop arr i acc = acc @ fromCharCode (drop i arr)"
proof (induction arr i acc rule: chunk_loop.induct)
  case (1 arr i acc)
  show ?case
  proof (cases "i < length arr")
    case True
    have split: "drop i arr = take chunkSize (drop i arr) @ drop (i + chunkSize) arr"
      by (metis append_take_drop_id drop_drop add.commute)
    have "chunk_loop arr i acc
            = chunk_loop arr (i + chunkSize) (acc @ fromCharCode (take chunkSize (drop i arr)))"
      using True by (subst chunk_loop.simps) (simp add: subarray_chunk)
    also have "\<dots> = (acc @ fromCharCode (take chunkSize (drop i arr)))
                      @ fromCharCode (drop (i + chunkSize) arr)"
      using "1.IH" [OF True] by (simp add: subarray_chunk [OF True])
    also have "\<dots> = acc @ fromCharCode (take chunkSize (drop i arr) @ drop (i + chunkSize) arr)"
      by (simp add: fromCharCode_def)
    also have "\<dots> = acc @ fromCharCode (drop i arr)"
      using split by simp
    finally show ?thesis .
  next
    case False
    then show ?thesis by (subst chunk_loop.simps) (simp add: fromCharCode_def)
  qed
qed

lemma ucast_u8_le: "(ucast (b :: u8) :: code_unit) \<le> 0xFF"
proof -
  have up: "is_up (ucast :: u8 \<Rightarrow> code_unit)"
    by (simp add: is_up)
  have "uint (ucast b :: code_unit) = uint b"
    by (rule uint_up_ucast [OF up])
  moreover have "uint b < 256"
    using unsigned_less [of b, where ?'a = int] by simp
  ultimately show ?thesis
    by (simp add: word_le_def)
qed

lemma ucast_u8_back: "(ucast (ucast (b :: u8) :: code_unit) :: u8) = b"
  by (rule ucast_up_ucast_id) (simp add: is_up)

text \<open>\<^verbatim>\<open>btoa\<close> never throws on a string made from bytes.\<close>

lemma btoa_fromCharCode: "btoa (fromCharCode arr) = Inr (base64_encode arr)"
  by (simp add: btoa_def fromCharCode_def list_all_iff ucast_u8_le ucast_u8_back comp_def)

lemma chunked_base64_encode: "chunked_base64 arr = Inr (base64_encode arr)"
  by (simp add: chunked_base64_def chunk_loop_eq btoa_fromCharCode)

subsection \<open>Base64 decoding inverts encoding\<close>

lemma index_of_nth: "distinct xs \<Longrightarrow> n < length xs \<Longrightarrow> index_of (xs ! n) xs = Some n"
proof (induction xs arbitrary: n)
  case Nil
  then show ?case by simp
next
  case (Cons x xs)
  then show ?case by (cases n) auto
qed

lemma b64_index_char: "n < 64 \<Longrightarrow> b64_index (b64_char n) = Some n"
  unfolding b64_index_def b64_char_def
  by (rule index_of_nth) (simp_all add: b64_alphabet_def)

lemma b64_char_not_pad: "n < 64 \<Longrightarrow> b64_char n \<noteq> CHR ''=''"
proof -
  assume "n < 64"
  then have "b64_alphabet ! n \<in> set b64_alphabet"
    by (intro nth_mem) (simp add: b64_alphabet_def)
  moreover have "CHR ''='' \<notin> set b64_alphabet"
    by (simp add: b64_alphabet_def)
  ultimately show ?thesis
    unfolding b64_char_def by metis
qed

text \<open>The four 6-bit digits of a number below \<open>2 ^ 24\<close> give the number back.\<close>

lemma recombine64:
  fixes n :: nat
  shows "n div 262144 * 64 + n div 4096 mod 64 = n div 4096"
    and "n div 262144 * 4096 + n div 4096 mod 64 * 64 + n div 64 mod 64 = n div 64"
    and "n div 262144 * 262144 + n div 4096 mod 64 * 4096 + n div 64 mod 64 * 64 + n mod 64 = n"
proof -
  have a: "n div 64 div 64 = n div 4096" "n div 4096 div 64 = n div 262144"
    by (simp_all add: div_mult2_eq[symmetric])
  have 1: "n = n div 64 * 64 + n mod 64" by simp
  have 2: "n div 64 = n div 64 div 64 * 64 + n div 64 mod 64" by simp
  have 3: "n div 4096 = n div 4096 div 64 * 64 + n div 4096 mod 64" by simp
  show "n div 262144 * 64 + n div 4096 mod 64 = n div 4096"
    using 3 unfolding a by linarith
  show "n div 262144 * 4096 + n div 4096 mod 64 * 64 + n div 64 mod 64 = n div 64"
    using 2 3 unfolding a by linarith
  show "n div 262144 * 262144 + n div 4096 mod 64 * 4096 + n div 64 mod 64 * 64 + n mod 64 = n"
    using 1 2 3 unfolding a by linarith
qed

lemma bytes3:
  fixes a b c :: nat
  assumes "b < 256" "c < 256"
  shows "(a * 65536 + b * 256 + c) div 65536 = a"
    and "(a * 65536 + b * 256 + c) div 256 mod 256 = b"
    and "(a * 65536 + b * 256 + c) mod 256 = c"
proof -
  show "(a * 65536 + b * 256 + c) div 65536 = a"
    using assms by (intro div_nat_eqI) simp_all
  have "(a * 65536 + b * 256 + c) div 256 = a * 256 + b"
    using assms by (intro div_nat_eqI) simp_all
  then show "(a * 65536 + b * 256 + c) div 256 mod 256 = b"
    using assms by simp
  have "a * 65536 + b * 256 + c = (a * 256 + b) * 256 + c" by simp
  then show "(a * 65536 + b * 256 + c) mod 256 = c"
    using assms by (metis mod_mult_self3 mod_less)
qed

lemma unat_u8_less: "unat (a :: u8) < 256"
  using unsigned_less [of a, where ?'a = nat] by simp

lemma decode_group3:
  fixes a b c :: u8
  defines "n \<equiv> unat a * 65536 + unat b * 256 + unat c"
  shows "base64_decode (b64_char (n div 262144) # b64_char (n div 4096 mod 64)
           # b64_char (n div 64 mod 64) # b64_char (n mod 64) # cs)
         = map_option (\<lambda>bs. a # b # c # bs) (base64_decode cs)"
proof -
  have lt: "n < 16777216"
    using unat_u8_less [of a] unat_u8_less [of b] unat_u8_less [of c] by (simp add: n_def)
  then have s1: "n div 262144 < 64" by simp
  have by3: "n div 65536 = unat a" "n div 256 mod 256 = unat b" "n mod 256 = unat c"
    unfolding n_def by (rule bytes3; rule unat_u8_less)+
  show ?thesis
    by (simp add: b64_index_char b64_char_not_pad s1 recombine64 by3)
qed

lemma decode_group2:
  fixes a b :: u8
  defines "n \<equiv> unat a * 65536 + unat b * 256"
  shows "base64_decode [b64_char (n div 262144), b64_char (n div 4096 mod 64),
           b64_char (n div 64 mod 64), CHR ''='']
         = Some [a, b]"
proof -
  have lt: "n < 16777216"
    using unat_u8_less [of a] unat_u8_less [of b] by (simp add: n_def)
  then have s1: "n div 262144 < 64" by simp
  have "n div 64 = unat a * 1024 + unat b * 4"
    unfolding n_def by (intro div_nat_eqI) simp_all
  moreover have "(unat a * 1024 + unat b * 4) div 1024 = unat a"
    using unat_u8_less [of b] by (intro div_nat_eqI) simp_all
  moreover have "(unat a * 1024 + unat b * 4) div 4 = unat a * 256 + unat b"
    by (intro div_nat_eqI) simp_all
  ultimately have by2: "n div 64 div 1024 = unat a" "n div 64 div 4 mod 256 = unat b"
    using unat_u8_less [of b] by simp_all
  show ?thesis
    by (simp add: b64_index_char b64_char_not_pad s1 recombine64 by2)
qed

lemma decode_group1:
  fixes a :: u8
  defines "n \<equiv> unat a * 65536"
  shows "base64_decode [b64_char (n div 262144), b64_char (n div 4096 mod 64),
           CHR ''='', CHR ''='']
         = Some [a]"
proof -
  have lt: "n < 16777216"
    using unat_u8_less [of a] by (simp add: n_def)
  then have s1: "n div 262144 < 64" by simp
  have "n div 4096 = unat a * 16"
    unfolding n_def by (intro div_nat_eqI) simp_all
  then have by1: "n div 4096 div 16 = unat a" by simp
  show ?thesis
    by (simp add: b64_index_char b64_char_not_pad s1 recombine64 by1)
qed

lemma base64_decode_encode: "base64_decode (base64_encode bs) = Some bs"
proof (induction bs rule: base64_encode.induct)
  case 1
  show ?case by simp
next
  case (2 a)
  show ?case using decode_group1 [of a] by (simp add: Let_def)
next
  case (3 a b)
  show ?case using decode_group2 [of a b] by (simp add: Let_def)
next
  case (4 a b c rest)
  show ?case using decode_group3 [of a b c "base64_encode rest"] 4 by (simp add: Let_def)
qed


text \<open>The test vectors of RFC 4648, section 10.\<close>

lemma base64_encode_rfc4648:
  "base64_encode [] = []"
  "base64_encode [0x66] = ''Zg==''"
  "base64_encode [0x66, 0x6F] = ''Zm8=''"
  "base64_encode [0x66, 0x6F, 0x6F] = ''Zm9v''"
  "base64_encode [0x66, 0x6F, 0x6F, 0x62] = ''Zm9vYg==''"
  "base64_encode [0x66, 0x6F, 0x6F, 0x62, 0x61] = ''Zm9vYmE=''"
  "base64_encode [0x66, 0x6F, 0x6F, 0x62, 0x61, 0x72] = ''Zm9vYmFy''"
  by (simp_all add: b64_char_def b64_alphabet_def)

lemma base64_decode_rfc4648:
  "base64_decode ''Zg=='' = Some [0x66]"
  "base64_decode ''Zm8='' = Some [0x66, 0x6F]"
  "base64_decode ''Zm9vYmFy'' = Some [0x66, 0x6F, 0x6F, 0x62, 0x61, 0x72]"
  using base64_decode_encode [of "[0x66]"] base64_decode_encode [of "[0x66, 0x6F]"]
    base64_decode_encode [of "[0x66, 0x6F, 0x6F, 0x62, 0x61, 0x72]"]
  by (simp_all only: base64_encode_rfc4648)

subsection \<open>The ingestion loop\<close>

text \<open>
  An iteration pushes a part exactly for a fetchable reference, and throws out of the loop
  exactly when the conversion of the reference to a string throws.
\<close>

lemma process_image_Pushed_iff: "is_Pushed (process_image env i v) \<longleftrightarrow> fetchable env i v"
  by (simp add: process_image_def fetchable_def chunked_base64_encode
           split: sum.split option.split)

lemma process_image_Aborted_iff:
  "process_image env i v = Aborted ex \<longleftrightarrow> ref_string env v = Inl ex"
  by (simp add: process_image_def chunked_base64_encode split: sum.split option.split)

lemma process_image_Failed_iff:
  "convertible env v \<Longrightarrow> is_Failed (process_image env i v) \<longleftrightarrow> \<not> fetchable env i v"
  by (auto simp: process_image_def fetchable_def convertible_def chunked_base64_encode
           split: sum.splits option.splits)

text \<open>
  While every reference is convertible, the loop ends and appends, to each list, its
  share of the outcomes of the iterations.
\<close>

lemma ingest_loop_outcomes:
  "list_all (convertible env) urls \<Longrightarrow>
     ingest_loop env i urls (ps, es) =
       Inr (ps @ pushed_parts (map (\<lambda>j. process_image env (i + j) (urls ! j))
                                  [0..<length urls]),
            es @ failed_messages (map (\<lambda>j. process_image env (i + j) (urls ! j))
                                    [0..<length urls]))"
proof (induction urls arbitrary: i ps es)
  case Nil
  show ?case by simp
next
  case (Cons u us)
  then have conv: "convertible env u" and rest: "list_all (convertible env) us"
    by simp_all
  show ?case
  proof (cases "process_image env i u")
    case (Pushed part)
    then show ?thesis
      by (simp add: Cons.IH [OF rest] map_upt_Suc del: upt_Suc)
  next
    case (Failed errMsg)
    then show ?thesis
      by (simp add: Cons.IH [OF rest] map_upt_Suc del: upt_Suc)
  next
    case (Aborted ex)
    then have "ref_string env u = Inl ex"
      by (simp add: process_image_Aborted_iff)
    then show ?thesis
      using conv by (simp add: convertible_def)
  qed
qed

text \<open>The loop over two batches in a row; an exception in the first ends it.\<close>

lemma ingest_loop_append:
  "ingest_loop env i (xs @ ys) st =
     (case ingest_loop env i xs st of
        Inl ex \<Rightarrow> Inl ex
      | Inr st' \<Rightarrow> ingest_loop env (i + length xs) ys st')"
proof (induction xs arbitrary: i st)
  case Nil
  show ?case by (cases st) simp
next
  case (Cons x xs)
  show ?case
    by (cases st; cases "process_image env i x") (simp_all add: Cons.IH split: sum.split)
qed

text \<open>
  A reference whose conversion throws ends the loop with that exception, whatever was
  collected before it and whatever follows it.
\<close>

lemma ingest_aborts:
  assumes "ingest env pre = Inr st" and "ref_string env v = Inl ex"
  shows "ingest env (pre @ v # post) = Inl ex"
proof -
  have "process_image env (length pre) v = Aborted ex"
    using assms(2) by (simp add: process_image_Aborted_iff)
  then show ?thesis
    using assms(1) by (cases st) (simp add: ingest_def ingest_loop_append)
qed

lemma ingest_loop_lengths:
  "ingest_loop env i urls (ps, es) = Inr (ps', es') \<Longrightarrow>
     length ps' + length es' = length ps + length es + length urls"
proof (induction urls arbitrary: i ps es)
  case Nil
  then show ?case by simp
next
  case (Cons u us)
  show ?case
  proof (cases "process_image env i u")
    case (Pushed part)
    then show ?thesis
      using Cons.prems Cons.IH [of "Suc i" "ps @ [part]" es] by simp
  next
    case (Failed errMsg)
    then show ?thesis
      using Cons.prems Cons.IH [of "Suc i" ps "es @ [errMsg]"] by simp
  next
    case (Aborted ex)
    then show ?thesis
      using Cons.prems by simp
  qed
qed

lemma ingest_none_pushed:
  "ingest env urls = Inr ([], errors) \<Longrightarrow> length errors = length urls"
  using ingest_loop_lengths [of env 0 urls "[]" "[]" "[]" errors] by (simp add: ingest_def)

lemma map_Pushed_pushed_parts: "map Pushed (pushed_parts os) = filter is_Pushed os"
  by (induction os rule: pushed_parts.induct) simp_all

lemma map_Failed_failed_messages: "map Failed (failed_messages os) = filter is_Failed os"
  by (induction os rule: failed_messages.induct) simp_all

lemma positions_length:
  "length (fetchable_positions env urls) + length (failing_positions env urls) = length urls"
  unfolding fetchable_positions_def failing_positions_def
  using sum_length_filter_compl [of "\<lambda>i. fetchable env i (urls ! i)" "[0..<length urls]"]
  by simp

text \<open>
  For a batch of convertible references, and every batch of strings is one, the loop
  ends with exactly the parts of the fetchable positions and the messages of the other
  positions, both in input order: k successes and N - k failures.
\<close>

lemma ingest_partitions_convertible:
  assumes "list_all (convertible env) imageUrls"
  shows "\<exists>imageParts errors.
           ingest env imageUrls = Inr (imageParts, errors)
           \<and> map Pushed imageParts
               = map (\<lambda>i. process_image env i (imageUrls ! i))
                   (fetchable_positions env imageUrls)
           \<and> map Failed errors
               = map (\<lambda>i. process_image env i (imageUrls ! i))
                   (failing_positions env imageUrls)
           \<and> length imageParts = length (fetchable_positions env imageUrls)
           \<and> length errors = length imageUrls - length (fetchable_positions env imageUrls)"
proof -
  let ?f = "\<lambda>i. process_image env i (imageUrls ! i)"
  let ?outs = "map ?f [0..<length imageUrls]"
  have run: "ingest env imageUrls = Inr (pushed_parts ?outs, failed_messages ?outs)"
    using ingest_loop_outcomes [OF assms, of 0 "[]" "[]"] by (simp add: ingest_def)
  have conv: "convertible env (imageUrls ! i)" if "i < length imageUrls" for i
    using assms that by (simp add: list_all_length)
  have p: "map Pushed (pushed_parts ?outs) = map ?f (fetchable_positions env imageUrls)"
    by (simp add: map_Pushed_pushed_parts filter_map comp_def process_image_Pushed_iff
          fetchable_positions_def)
  have "filter (\<lambda>i. is_Failed (?f i)) [0..<length imageUrls]
          = filter (\<lambda>i. \<not> fetchable env i (imageUrls ! i)) [0..<length imageUrls]"
    by (rule filter_cong) (simp_all add: process_image_Failed_iff conv)
  then have e: "map Failed (failed_messages ?outs) = map ?f (failing_positions env imageUrls)"
    by (simp add: map_Failed_failed_messages filter_map comp_def failing_positions_def)
  have lp: "length (pushed_parts ?outs) = length (fetchable_positions env imageUrls)"
    using arg_cong [OF p, of length] by simp
  have "length (failed_messages ?outs) = length (failing_positions env imageUrls)"
    using arg_cong [OF e, of length] by simp
  then have le: "length (failed_messages ?outs)
                   = length imageUrls - length (fetchable_positions env imageUrls)"
    using positions_length [of env imageUrls] by simp
  show ?thesis
    using run p e lp le by blast
qed

subsection \<open>The concrete environment, evaluated\<close>

lemma pathMatch_a:
  "pathMatch ''/storage/v1/object/public/article-photos/u1/a.png'' = Some ''u1/a.png''"
  by (simp add: storage_prefix_def line_terminator_def)

lemma pathMatch_b:
  "pathMatch ''/storage/v1/object/public/article-photos/u1/b.jpg'' = Some ''u1/b.jpg''"
  by (simp add: storage_prefix_def line_terminator_def)

lemma pathMatch_missing:
  "pathMatch ''/storage/v1/object/public/article-photos/u1/gone.jpg'' = Some ''u1/gone.jpg''"
  by (simp add: storage_prefix_def line_terminator_def)

lemma pathMatch_foreign: "pathMatch ''/photo.jpg'' = None"
  by (simp add: storage_prefix_def)

lemma sample_process_a:
  "process_image (sample_env_ai ai) i url_a = Pushed \<lparr>mimeType = ''image/png'', data = ''TWFu''\<rparr>"
  by (simp add: process_image_def sample_env_ai_def url_a_def ref_string_def sample_parseUrl_def
        sample_download_def pathMatch_a chunked_base64_encode b64_char_def b64_alphabet_def
        del: pathMatch.simps)

lemma sample_process_b:
  "process_image (sample_env_ai ai) i url_b = Pushed \<lparr>mimeType = ''image/jpeg'', data = ''TWE=''\<rparr>"
  by (simp add: process_image_def sample_env_ai_def url_b_def ref_string_def sample_parseUrl_def
        sample_download_def pathMatch_b chunked_base64_encode b64_char_def b64_alphabet_def
        del: pathMatch.simps)

lemma sample_process_missing:
  "process_image (sample_env_ai ai) i url_missing
     = Failed ''Failed to download u1/gone.jpg: Object not found''"
  by (simp add: process_image_def sample_env_ai_def url_missing_def ref_string_def
        sample_parseUrl_def sample_download_def pathMatch_missing del: pathMatch.simps)

lemma sample_process_foreign:
  "process_image (sample_env_ai ai) i url_foreign
     = Failed ''Invalid storage URL format: https://example.com/photo.jpg''"
  by (simp add: process_image_def sample_env_ai_def url_foreign_def ref_string_def
        sample_parseUrl_def pathMatch_foreign del: pathMatch.simps)

lemma sample_process_unparsable:
  "process_image (sample_env_ai ai) i url_unparsable
     = Failed (''Error processing image not a url: Invalid URL: '' @ [CHR 39]
                @ ''not a url'' @ [CHR 39])"
  by (simp add: process_image_def sample_env_ai_def url_unparsable_def ref_string_def
        sample_parseUrl_def error_processing_def)

lemma sample_process_object:
  "process_image (sample_env_ai ai) i url_object
     = Aborted (ErrorObject ''Cannot convert object to primitive value'')"
  by (simp add: process_image_def sample_env_ai_def url_object_def ref_string_def
        sample_toString_def)

lemmas sample_process =
  sample_process_a sample_process_b sample_process_missing sample_process_foreign
  sample_process_unparsable sample_process_object

lemmas sample_env_process =
  sample_process [where ai = "\<lambda>request. Inr (Some sample_text)", folded sample_env_def]

lemma sample_fetchable_positions:
  "fetchable_positions sample_env [url_a, url_foreign, url_b] = [0, 2]"
  by (simp add: fetchable_positions_def process_image_Pushed_iff [symmetric]
        sample_env_process upt_rec)

lemma process_image_malformed:
  "ref_string env v = Inr url \<Longrightarrow> \<not> well_formed env v \<Longrightarrow>
     process_image env i v =
       Failed (case parseUrl env url of
                 Inl imgError \<Rightarrow> error_processing url imgError
               | Inr pathname \<Rightarrow> ''Invalid storage URL format: '' @ url)"
  by (auto simp: well_formed_def process_image_def split: sum.splits option.splits)

lemma sample_ref_string:
  "ref_string sample_env url_foreign = Inr ''https://example.com/photo.jpg''"
  "ref_string sample_env url_unparsable = Inr ''not a url''"
  "ref_string sample_env url_object = Inl (ErrorObject ''Cannot convert object to primitive value'')"
  by (simp_all add: ref_string_def url_foreign_def url_unparsable_def url_object_def
        sample_env_def sample_env_ai_def sample_toString_def)

lemma sample_unparsable_malformed: "\<not> well_formed sample_env url_unparsable"
  by (simp add: well_formed_def sample_env_def sample_env_ai_def url_unparsable_def
        ref_string_def sample_parseUrl_def)

lemma sample_foreign_malformed: "\<not> well_formed sample_env url_foreign"
  by (simp add: well_formed_def sample_env_def sample_env_ai_def url_foreign_def ref_string_def
        sample_parseUrl_def pathMatch_foreign del: pathMatch.simps)

lemma sample_parseUrl_simps:
  "parseUrl sample_env ''https://example.com/photo.jpg'' = Inr ''/photo.jpg''"
  "parseUrl sample_env ''not a url''
     = Inl (ErrorObject (''Invalid URL: '' @ [CHR 39] @ ''not a url'' @ [CHR 39]))"
  by (simp_all add: sample_env_def sample_env_ai_def sample_parseUrl_def)

subsection \<open>The handler\<close>

lemma sample_parse_simps:
  "sample_JSON_parse sample_text = Inr sample_object"
  "sample_JSON_parse no_title_text = Inr no_title_object"
  "sample_JSON_parse ''{not json'' = Inl sample_syntax_error"
  "sample_JSON_parse ''null'' = Inr JNull"
  by (simp_all add: sample_JSON_parse_def sample_text_def no_title_text_def)

lemma analysisResult_of_not_null:
  "v \<noteq> JNull \<Longrightarrow> \<exists>r. analysisResult_of v = Inr r
       \<and> title r = read_prop v ''title'' \<and> description r = read_prop v ''description''
       \<and> brand r = read_prop v ''brand'' \<and> category r = read_prop v ''category''
       \<and> color r = read_prop v ''color'' \<and> condition r = read_prop v ''condition''
       \<and> season r = read_prop v ''season''"
  by (simp add: analysisResult_of_def)

lemma sample_syntax_error_message:
  "errorMessage sample_syntax_error =
     ''Erreur lors de l'analyse avec Gemini: Expected property name or '}' in JSON at position 1 (line 1 column 2)''"
  by (simp add: errorMessage_def sample_syntax_error_def message_includes_def gemini_base_message_def)

text \<open>A request that passes the checks of lines 41--132 reaches the loop.\<close>

lemma try_body_reaches_images:
  assumes "truthy_str (GEMINI_API_KEY env)"
    and "authorization req = Some authHeader" and "authHeader \<noteq> []"
    and "getUser env authHeader = Inr \<lparr>user = Some uid, userError = None\<rparr>"
    and "body_json req = Inr b" and "b \<noteq> JNull"
    and "lookup_member env (read_prop b ''sellerId'') uid = Inr familyMember"
    and "read_prop b ''imageUrls'' = Some (JArr imageUrls)" and "imageUrls \<noteq> []"
  shows "try_body env req =
           analyze_images env imageUrls (read_prop b ''isLot'') (read_prop b ''lotArticles'')
             (writingStyle_of familyMember)"
proof -
  obtain u us where urls: "imageUrls = u # us"
    using assms(9) by (cases imageUrls) auto
  have "analyze env req uid =
          analyze_images env imageUrls (read_prop b ''isLot'') (read_prop b ''lotArticles'')
            (writingStyle_of familyMember)"
    using assms(5-8) by (simp add: analyze_def urls)
  then show ?thesis
    using assms(1-4) by (simp add: try_body_def)
qed

lemma sample_request_reaches_images:
  "imageUrls \<noteq> [] \<Longrightarrow>
     try_body (sample_env_ai ai) (sample_request imageUrls) =
       analyze_images (sample_env_ai ai) imageUrls None None (StyleText default_style)"
  using try_body_reaches_images [of "sample_env_ai ai" "sample_request imageUrls"
          "''Bearer good''" "''u1''" "JObj [(''imageUrls'', JArr imageUrls)]" None imageUrls]
  by (simp add: sample_env_ai_def sample_request_def lookup_member_def writingStyle_of_def)

lemma str_includes_self: "str_includes m m"
  by (cases m) simp_all

lemma str_includes_append: "str_includes (p @ m) m"
  by (induction p) (simp_all add: str_includes_self)

text \<open>Every stage of the handler answers with a structured response.\<close>

lemma errorMessage_cases:
  "errorMessage e \<in> set fixed_messages
   \<or> starts_with (errorMessage e) (gemini_base_message @ '': '')"
  by (simp add: errorMessage_def fixed_messages_def starts_with_def split: option.split)

lemma structured_ai_try: "ai_try env request = Inr r \<Longrightarrow> structured r"
  by (auto simp: ai_try_def empty_response_def structured_def fixed_messages_def
           split: sum.splits option.splits if_splits)

lemma structured_ai_phase: "structured (ai_phase env request)"
proof (cases "ai_try env request")
  case (Inl e)
  then show ?thesis
    using errorMessage_cases [of e] by (auto simp: ai_phase_def structured_def)
next
  case (Inr r)
  then show ?thesis
    using structured_ai_try [OF Inr] by (simp add: ai_phase_def)
qed

lemma fixed_messages_mem:
  "''La cle API Gemini n'est pas configuree. Veuillez configurer GEMINI_API_KEY dans les secrets de votre projet Supabase.''
     \<in> set fixed_messages"
  "''Authorization header manquant'' \<in> set fixed_messages"
  "''Utilisateur non authentifie'' \<in> set fixed_messages"
  "''Au moins une URL d'image est requise'' \<in> set fixed_messages"
  "''Impossible de charger les images depuis le stockage.'' \<in> set fixed_messages"
  by (simp_all add: fixed_messages_def)

lemma structured_respond:
  "e \<in> set fixed_messages \<Longrightarrow> st = 400 \<or> st = 401 \<or> st = 500 \<Longrightarrow>
     structured (response (respond st (ErrorBody e None)))"
  by (simp add: structured_def respond_def)

lemma structured_analyze_images:
  assumes "analyze_images env imageUrls isLot lotArticles writingStyle = Inr out"
  shows "structured (response out)"
proof -
  obtain ps es where ing: "ingest env imageUrls = Inr (ps, es)"
    using assms by (auto simp: analyze_images_def split: sum.splits)
  show ?thesis
  proof (cases "ps = []")
    case True
    then have "out = respond 400
                 (ErrorBody ''Impossible de charger les images depuis le stockage.''
                    (Some (take 3 es)))"
      using assms ing by (simp add: analyze_images_def)
    then show ?thesis
      using fixed_messages_mem(5) by (simp add: respond_def structured_def)
  next
    case False
    then obtain p where
      "out = \<lparr>response = ai_phase env \<lparr>prompt = p, parts = ps\<rparr>,
              ai_calls = [\<lparr>prompt = p, parts = ps\<rparr>]\<rparr>"
      using assms ing by (auto simp: analyze_images_def split: sum.splits)
    then show ?thesis
      by (simp add: structured_ai_phase)
  qed
qed

lemma structured_analyze:
  assumes "analyze env req uid = Inr out"
  shows "structured (response out)"
proof -
  obtain b where b: "body_json req = Inr b" "b \<noteq> JNull"
    using assms by (auto simp: analyze_def split: sum.splits if_splits)
  obtain fm where fm: "lookup_member env (read_prop b ''sellerId'') uid = Inr fm"
    using assms b by (auto simp: analyze_def split: sum.splits)
  show ?thesis
  proof (cases "\<exists>u us. read_prop b ''imageUrls'' = Some (JArr (u # us))")
    case True
    then obtain u us where "read_prop b ''imageUrls'' = Some (JArr (u # us))"
      by blast
    then have "analyze_images env (u # us) (read_prop b ''isLot'') (read_prop b ''lotArticles'')
                 (writingStyle_of fm) = Inr out"
      using assms b fm by (simp add: analyze_def)
    then show ?thesis
      by (rule structured_analyze_images)
  next
    case False
    then have "out = respond 400 (ErrorBody ''Au moins une URL d'image est requise'' None)"
      using assms b fm
      by (auto simp: analyze_def split: option.splits json.splits list.splits)
    then show ?thesis
      using structured_respond [OF fixed_messages_mem(4), of 400] by simp
  qed
qed

lemma structured_try_body:
  assumes "try_body env req = Inr out"
  shows "structured (response out)"
proof (cases "\<exists>uid. analyze env req uid = Inr out")
  case True
  then show ?thesis
    using structured_analyze by blast
next
  case False
  then have "out = respond 500 (ErrorBody
      ''La cle API Gemini n'est pas configuree. Veuillez configurer GEMINI_API_KEY dans les secrets de votre projet Supabase.''
      None)
    \<or> out = respond 401 (ErrorBody ''Authorization header manquant'' None)
    \<or> out = respond 401 (ErrorBody ''Utilisateur non authentifie'' None)"
    using assms
    by (auto simp: try_body_def split: if_splits option.splits sum.splits)
  then show ?thesis
    using structured_respond [OF fixed_messages_mem(1), of 500]
      structured_respond [OF fixed_messages_mem(2), of 401]
      structured_respond [OF fixed_messages_mem(3), of 401]
    by auto
qed

text \<open>
  End to end: of three references the second is malformed; the two others are sent to the
  AI service, in order, and its answer is returned.
\<close>

lemma sample_end_to_end:
  "handler sample_env (sample_request [url_a, url_foreign, url_b]) =
     \<lparr>response =
        \<lparr>status = 200,
         body = ResultBody
           \<lparr>title = Some (JStr ''T''),
            description = Some (JStr ''D''),
            brand = Some (JStr ''B''),
            category = Some (JStr ''tops''),
            subcategory = None,
            color = Some (JStr ''Noir''),
            material = None,
            size' = None,
            condition = Some (JStr ''good''),
            season = Some (JStr ''summer''),
            suggestedPeriod = None,
            estimatedPrice = None,
            seoKeywords = None,
            hashtags = None,
            searchTerms = None,
            confidenceScore = None\<rparr>\<rparr>,
      ai_calls = [\<lparr>prompt = ''PROMPT'',
                   parts = [\<lparr>mimeType = ''image/png'', data = ''TWFu''\<rparr>,
                            \<lparr>mimeType = ''image/jpeg'', data = ''TWE=''\<rparr>]\<rparr>]\<rparr>"
proof -
  let ?urls = "[url_a, url_foreign, url_b]"
  let ?parts = "[\<lparr>mimeType = ''image/png'', data = ''TWFu''\<rparr>,
                 \<lparr>mimeType = ''image/jpeg'', data = ''TWE=''\<rparr>]"
  have ing: "ingest sample_env ?urls =
               Inr (?parts, [''Invalid storage URL format: https://example.com/photo.jpg''])"
    by (simp add: ingest_def sample_env_process)
  have nonempty: "sample_text \<noteq> []"
    by (simp add: sample_text_def)
  have ai: "ai_phase sample_env \<lparr>prompt = ''PROMPT'', parts = ?parts\<rparr> =
      \<lparr>status = 200,
       body = ResultBody
         \<lparr>title = Some (JStr ''T''),
          description = Some (JStr ''D''),
          brand = Some (JStr ''B''),
          category = Some (JStr ''tops''),
          subcategory = None,
          color = Some (JStr ''Noir''),
          material = None,
          size' = None,
          condition = Some (JStr ''good''),
          season = Some (JStr ''summer''),
          suggestedPeriod = None,
          estimatedPrice = None,
          seoKeywords = None,
          hashtags = None,
          searchTerms = None,
          confidenceScore = None\<rparr>\<rparr>"
    by (simp add: ai_phase_def ai_try_def nonempty normalize_response_def sample_parse_simps
          analysisResult_of_def sample_env_def sample_env_ai_def)
       (simp add: sample_object_def)
  have bp: "buildPrompt sample_env None None n (StyleText default_style) = Inr ''PROMPT''" for n
    by (simp add: sample_env_def sample_env_ai_def)
  have tb: "try_body sample_env (sample_request ?urls) =
              analyze_images sample_env ?urls None None (StyleText default_style)"
    unfolding sample_env_def by (rule sample_request_reaches_images) simp
  have m: "req_method (sample_request ?urls) \<noteq> ''OPTIONS''"
    by (simp add: sample_request_def)
  show ?thesis
    by (simp add: handler_def m tb analyze_images_def ing ai bp)
qed

text \<open>
  When the loop ends with \<^verbatim>\<open>imageParts\<close> empty, the handler answers 400 with the error
  string of line 198 and, as details, the first three messages of \<^verbatim>\<open>errors\<close> in the
  order of the loop, and it sends nothing to the AI service; \<^verbatim>\<open>errors\<close> then holds
  one message for each reference.
\<close>

lemma all_images_failed_after_loop:
  assumes "req_method req \<noteq> ''OPTIONS''"
    and "truthy_str (GEMINI_API_KEY env)"
    and "authorization req = Some authHeader" and "authHeader \<noteq> []"
    and "getUser env authHeader = Inr \<lparr>user = Some uid, userError = None\<rparr>"
    and "body_json req = Inr b" and "b \<noteq> JNull"
    and "lookup_member env (read_prop b ''sellerId'') uid = Inr familyMember"
    and "read_prop b ''imageUrls'' = Some (JArr imageUrls)" and "imageUrls \<noteq> []"
    and "ingest env imageUrls = Inr ([], errors)"
  shows "handler env req =
           \<lparr>response =
              \<lparr>status = 400,
               body = ErrorBody ''Impossible de charger les images depuis le stockage.''
                        (Some (take 3 errors))\<rparr>,
            ai_calls = []\<rparr>
         \<and> length errors = length imageUrls"
proof -
  have "try_body env req =
          analyze_images env imageUrls (read_prop b ''isLot'') (read_prop b ''lotArticles'')
            (writingStyle_of familyMember)"
    using assms(2-10) by (rule try_body_reaches_images)
  then show ?thesis
    using assms(1,11) ingest_none_pushed [OF assms(11)]
    by (simp add: handler_def analyze_images_def respond_def)
qed

lemma sample_all_images_failed:
  "handler sample_env (sample_request [url_foreign, url_unparsable, url_missing, url_foreign]) =
     \<lparr>response =
        \<lparr>status = 400,
         body = ErrorBody ''Impossible de charger les images depuis le stockage.''
                  (Some [''Invalid storage URL format: https://example.com/photo.jpg'',
                         ''Error processing image not a url: Invalid URL: '' @ [CHR 39]
                           @ ''not a url'' @ [CHR 39],
                         ''Failed to download u1/gone.jpg: Object not found''])\<rparr>,
      ai_calls = []\<rparr>"
proof -
  let ?urls = "[url_foreign, url_unparsable, url_missing, url_foreign]"
  let ?errors = "[''Invalid storage URL format: https://example.com/photo.jpg'',
            ''Error processing image not a url: Invalid URL: '' @ [CHR 39] @ ''not a url'' @ [CHR 39],
            ''Failed to download u1/gone.jpg: Object not found'',
            ''Invalid storage URL format: https://example.com/photo.jpg'']"
  have ing: "ingest sample_env ?urls = Inr ([], ?errors)"
    by (simp add: ingest_def sample_env_process)
  have "handler sample_env (sample_request ?urls) =
     \<lparr>response =
        \<lparr>status = 400,
         body = ErrorBody ''Impossible de charger les images depuis le stockage.''
                  (Some (take 3 ?errors))\<rparr>,
      ai_calls = []\<rparr>
     \<and> length ?errors = length ?urls"
    by (rule all_images_failed_after_loop [of "sample_request ?urls" sample_env
              "''Bearer good''" "''u1''" "JObj [(''imageUrls'', JArr ?urls)]" None ?urls])
       (simp_all add: sample_env_def sample_env_ai_def sample_request_def lookup_member_def
          ing [unfolded sample_env_def sample_env_ai_def])
  then show ?thesis
    by simp
qed

text \<open>The batch of three strings of which the second is malformed.\<close>

lemma sample_partition:
  "ingest sample_env [url_a, url_foreign, url_b] =
     Inr ([\<lparr>mimeType = ''image/png'', data = ''TWFu''\<rparr>,
           \<lparr>mimeType = ''image/jpeg'', data = ''TWE=''\<rparr>],
          [''Invalid storage URL format: https://example.com/photo.jpg''])"
  "fetchable_positions sample_env [url_a, url_foreign, url_b] = [0, 2]"
  by (simp_all add: ingest_def sample_env_process sample_fetchable_positions)

text \<open>
  A request whose loop throws is answered by the outer \<^verbatim>\<open>catch\<close>, and nothing is sent to
  the AI service.
\<close>

lemma handler_loop_throws:
  assumes "req_method req \<noteq> ''OPTIONS''"
    and "truthy_str (GEMINI_API_KEY env)"
    and "authorization req = Some authHeader" and "authHeader \<noteq> []"
    and "getUser env authHeader = Inr \<lparr>user = Some uid, userError = None\<rparr>"
    and "body_json req = Inr b" and "b \<noteq> JNull"
    and "lookup_member env (read_prop b ''sellerId'') uid = Inr familyMember"
    and "read_prop b ''imageUrls'' = Some (JArr imageUrls)" and "imageUrls \<noteq> []"
    and "ingest env imageUrls = Inl ex"
  shows "handler env req =
           \<lparr>response =
              \<lparr>status = 500,
               body = ErrorBody
                 (''Erreur serveur: '' @ or_else (message_of ex) ''Unknown error'') None\<rparr>,
            ai_calls = []\<rparr>"
proof -
  have "try_body env req =
          analyze_images env imageUrls (read_prop b ''isLot'') (read_prop b ''lotArticles'')
            (writingStyle_of familyMember)"
    using assms(2-10) by (rule try_body_reaches_images)
  then show ?thesis
    using assms(1,11) by (simp add: handler_def analyze_images_def respond_def)
qed

lemma sample_handler_loop_throws:
  assumes "imageUrls \<noteq> []" and "ingest sample_env imageUrls = Inl (ErrorObject m)"
    and "m \<noteq> []"
  shows "handler sample_env (sample_request imageUrls) =
           \<lparr>response = \<lparr>status = 500, body = ErrorBody (''Erreur serveur: '' @ m) None\<rparr>,
            ai_calls = []\<rparr>"
  using handler_loop_throws [of "sample_request imageUrls" sample_env "''Bearer good''" "''u1''"
          "JObj [(''imageUrls'', JArr imageUrls)]" None imageUrls "ErrorObject m"] assms
  by (simp add: sample_env_def sample_env_ai_def sample_request_def lookup_member_def)

subsection \<open>The claims\<close>

text \<open>
  C1. For every batch of N references of which k are fetchable, the loop should leave k
  successes and N - k failures, in input order, each reference in exactly one list. The
  loop does so for every batch of convertible references, hence for every batch of
  strings (\<open>ingest_partitions_convertible\<close>). It does not for a batch that holds an
  element whose conversion to a string throws, which a request body can hold: at the
  batch of a fetchable reference, \<^verbatim>\<open>{"toString":1}\<close> and a fetchable reference,
  \<^verbatim>\<open>new URL(url)\<close> throws on line 141, the \<^verbatim>\<open>catch\<close> block throws again in \<^verbatim>\<open>${url}\<close>
  on line 188, and the loop ends with that exception: no list is left, the part already
  collected is lost, and the handler answers 500 from the outer \<^verbatim>\<open>catch\<close>.
\<close>

theorem ingest_aborts_on_object:
  "ingest sample_env [url_a, url_object, url_b]
     = Inl (ErrorObject ''Cannot convert object to primitive value'')
   \<and> handler sample_env (sample_request [url_a, url_object, url_b]) =
       \<lparr>response =
          \<lparr>status = 500,
           body = ErrorBody ''Erreur serveur: Cannot convert object to primitive value'' None\<rparr>,
        ai_calls = []\<rparr>"
proof -
  have ing: "ingest sample_env [url_a, url_object, url_b]
               = Inl (ErrorObject ''Cannot convert object to primitive value'')"
    by (simp add: ingest_def sample_env_process)
  show ?thesis
    using ing sample_handler_loop_throws [OF _ ing] by simp
qed

text \<open>
  C2. For every byte sequence, the chunked conversion of lines 168--174 returns the base64
  text of the bytes without throwing, and decoding that text gives the bytes back. This
  holds for every length: for the empty buffer, whose text is empty, and for lengths that
  are multiples of the chunk size.
\<close>

theorem chunked_base64_roundtrip:
  "chunked_base64 uint8Array = Inr (base64_encode uint8Array)
   \<and> base64_decode (base64_encode uint8Array) = Some uint8Array
   \<and> chunked_base64 [] = Inr []"
  using chunked_base64_encode [of "[]"]
  by (simp add: chunked_base64_encode base64_decode_encode)

text \<open>
  C10. For every byte array, the chunked conversion gives the same result as the
  conversion of the whole buffer by one \<^verbatim>\<open>String.fromCharCode\<close> call followed by the
  same \<^verbatim>\<open>btoa\<close>.
\<close>

theorem chunked_base64_eq_naive: "chunked_base64 uint8Array = naive_base64 uint8Array"
proof -
  have "chunk_loop uint8Array 0 [] = [] @ fromCharCode (drop 0 uint8Array)"
    by (rule chunk_loop_eq)
  then have "chunk_loop uint8Array 0 [] = fromCharCode uint8Array"
    by simp
  then show ?thesis
    by (simp add: chunked_base64_def naive_base64_def)
qed


text \<open>
  C3, as stated, fails. A reference whose path does not match the storage pattern is
  recorded with the reason \<^verbatim>\<open>Invalid storage URL format: \<close> followed by the reference,
  with a capital I; a reference that the URL parser rejects is recorded by the
  \<^verbatim>\<open>catch\<close> block with the reason \<^verbatim>\<open>Error processing image \<close>, the reference and the
  message of the parser. Neither contains the string \<^verbatim>\<open>invalid storage URL format\<close>.
\<close>

theorem malformed_reason_counterexample:
  "ingest sample_env [url_foreign, url_unparsable] =
     Inr ([], [''Invalid storage URL format: https://example.com/photo.jpg'',
               ''Error processing image not a url: Invalid URL: '' @ [CHR 39] @ ''not a url''
                 @ [CHR 39]])
   \<and> \<not> str_includes ''Invalid storage URL format: https://example.com/photo.jpg''
          ''invalid storage URL format''
   \<and> \<not> str_includes
          (''Error processing image not a url: Invalid URL: '' @ [CHR 39] @ ''not a url''
             @ [CHR 39])
          ''invalid storage URL format''"
  by (simp add: ingest_def sample_env_process)

text \<open>
  C3, amended. For every reference that is convertible, as every string is, and not
  well-formed, at any position that the loop reaches, the iteration does not raise: it
  appends one reason to \<^verbatim>\<open>errors\<close>, leaves \<^verbatim>\<open>imageParts\<close> as it was, and the loop
  goes on with the references that follow. The reason is
  \<^verbatim>\<open>Invalid storage URL format: \<close> followed by the reference when the URL parses and its
  path does not match, and the message of the \<^verbatim>\<open>catch\<close> block when the URL parser
  throws.
\<close>

theorem malformed_reference_recorded:
  assumes "ref_string env v = Inr url" and "\<not> well_formed env v"
    and "ingest env pre = Inr (imageParts, errors)"
  shows "ingest env (pre @ v # post) =
           ingest_loop env (Suc (length pre)) post
             (imageParts,
              errors @
                [case parseUrl env url of
                   Inl imgError \<Rightarrow> error_processing url imgError
                 | Inr pathname \<Rightarrow> ''Invalid storage URL format: '' @ url])"
  using process_image_malformed [OF assms(1,2), of "length pre"] assms(3)
  by (simp add: ingest_def ingest_loop_append)

theorem malformed_reference_recorded_witness:
  "ref_string sample_env url_foreign = Inr ''https://example.com/photo.jpg''
   \<and> \<not> well_formed sample_env url_foreign
   \<and> ingest sample_env [url_a] = Inr ([\<lparr>mimeType = ''image/png'', data = ''TWFu''\<rparr>], [])
   \<and> ingest sample_env [url_a, url_foreign, url_b] =
       Inr ([\<lparr>mimeType = ''image/png'', data = ''TWFu''\<rparr>,
             \<lparr>mimeType = ''image/jpeg'', data = ''TWE=''\<rparr>],
            [''Invalid storage URL format: https://example.com/photo.jpg''])
   \<and> ref_string sample_env url_unparsable = Inr ''not a url''
   \<and> \<not> well_formed sample_env url_unparsable
   \<and> ingest sample_env [url_a, url_unparsable, url_b] =
       Inr ([\<lparr>mimeType = ''image/png'', data = ''TWFu''\<rparr>,
             \<lparr>mimeType = ''image/jpeg'', data = ''TWE=''\<rparr>],
            [''Error processing image not a url: Invalid URL: '' @ [CHR 39] @ ''not a url''
               @ [CHR 39]])"
proof -
  have pre: "ingest sample_env [url_a] = Inr ([\<lparr>mimeType = ''image/png'', data = ''TWFu''\<rparr>], [])"
    by (simp add: ingest_def sample_env_process)
  note foreign = malformed_reference_recorded
    [OF sample_ref_string(1) sample_foreign_malformed pre, of "[url_b]"]
  note unparsable = malformed_reference_recorded
    [OF sample_ref_string(2) sample_unparsable_malformed pre, of "[url_b]"]
  have "ingest sample_env [url_a, url_foreign, url_b] =
       Inr ([\<lparr>mimeType = ''image/png'', data = ''TWFu''\<rparr>,
             \<lparr>mimeType = ''image/jpeg'', data = ''TWE=''\<rparr>],
            [''Invalid storage URL format: https://example.com/photo.jpg''])"
    using foreign by (simp add: sample_env_process sample_parseUrl_simps)
  moreover have "ingest sample_env [url_a, url_unparsable, url_b] =
       Inr ([\<lparr>mimeType = ''image/png'', data = ''TWFu''\<rparr>,
             \<lparr>mimeType = ''image/jpeg'', data = ''TWE=''\<rparr>],
            [''Error processing image not a url: Invalid URL: '' @ [CHR 39] @ ''not a url''
               @ [CHR 39]])"
    using unparsable
    by (simp add: sample_env_process sample_parseUrl_simps error_processing_def)
  ultimately show ?thesis
    using pre sample_ref_string(1,2) sample_foreign_malformed sample_unparsable_malformed
    by blast
qed

text \<open>
  C4, as stated, fails: the code has no check of the required fields. When the AI service
  answers with valid JSON that lacks \<^verbatim>\<open>title\<close> and has an empty \<^verbatim>\<open>brand\<close>, the
  handler answers 200 with a result in which \<^verbatim>\<open>title\<close> is \<^verbatim>\<open>undefined\<close> and
  \<^verbatim>\<open>brand\<close> is empty; nothing like a \<^verbatim>\<open>SchemaError\<close> is raised.
\<close>

theorem missing_field_counterexample:
  "handler (sample_env_ai (\<lambda>request. Inr (Some no_title_text))) (sample_request [url_a]) =
     \<lparr>response =
        \<lparr>status = 200,
         body = ResultBody
           \<lparr>title = None,
            description = Some (JStr ''D''),
            brand = Some (JStr []),
            category = Some (JStr ''tops''),
            subcategory = None,
            color = Some (JStr ''Noir''),
            material = None,
            size' = None,
            condition = Some (JStr ''good''),
            season = Some (JStr ''summer''),
            suggestedPeriod = None,
            estimatedPrice = None,
            seoKeywords = None,
            hashtags = None,
            searchTerms = None,
            confidenceScore = None\<rparr>\<rparr>,
      ai_calls = [\<lparr>prompt = ''PROMPT'',
                   parts = [\<lparr>mimeType = ''image/png'', data = ''TWFu''\<rparr>]\<rparr>]\<rparr>"
proof -
  let ?env = "sample_env_ai (\<lambda>request. Inr (Some no_title_text))"
  have ing: "ingest ?env [url_a] = Inr ([\<lparr>mimeType = ''image/png'', data = ''TWFu''\<rparr>], [])"
    by (simp add: ingest_def sample_process)
  have nonempty: "no_title_text \<noteq> []"
    by (simp add: no_title_text_def)
  have ai: "ai_phase ?env \<lparr>prompt = ''PROMPT'', parts = [\<lparr>mimeType = ''image/png'', data = ''TWFu''\<rparr>]\<rparr>
      = \<lparr>status = 200, body = ResultBody
           \<lparr>title = None,
            description = Some (JStr ''D''),
            brand = Some (JStr []),
            category = Some (JStr ''tops''),
            subcategory = None,
            color = Some (JStr ''Noir''),
            material = None,
            size' = None,
            condition = Some (JStr ''good''),
            season = Some (JStr ''summer''),
            suggestedPeriod = None,
            estimatedPrice = None,
            seoKeywords = None,
            hashtags = None,
            searchTerms = None,
            confidenceScore = None\<rparr>\<rparr>"
    by (simp add: ai_phase_def ai_try_def nonempty normalize_response_def sample_parse_simps
          analysisResult_of_def sample_env_ai_def)
       (simp add: no_title_object_def)
  have bp: "buildPrompt ?env None None n (StyleText default_style) = Inr ''PROMPT''" for n
    by (simp add: sample_env_ai_def)
  have tb: "try_body ?env (sample_request [url_a]) =
              analyze_images ?env [url_a] None None (StyleText default_style)"
    by (rule sample_request_reaches_images) simp
  have m: "req_method (sample_request [url_a]) \<noteq> ''OPTIONS''"
    by (simp add: sample_request_def)
  show ?thesis
    by (simp add: handler_def m tb analyze_images_def ing ai bp)
qed

text \<open>
  C4, amended. When \<^verbatim>\<open>JSON.parse\<close> throws, as it does on \<^verbatim>\<open>{not json\<close>, lines 432--452
  fail with that exception, and the handler answers 500 with the message that the
  \<^verbatim>\<open>catch\<close> block derives from it. For valid JSON other than \<^verbatim>\<open>null\<close> they do not fail,
  whatever fields are missing or empty: each required field of the result is what the
  parsed value has under that name, \<^verbatim>\<open>undefined\<close> when it is missing. On \<^verbatim>\<open>null\<close>
  they fail with the \<^verbatim>\<open>TypeError\<close> of reading \<^verbatim>\<open>title\<close>.
\<close>

theorem normalize_failure_modes:
  "(parse rawText = Inl ex \<longrightarrow> normalize_response parse rawText = Inl ex)
   \<and> (parse rawText = Inr v \<and> v \<noteq> JNull \<longrightarrow>
        (\<exists>r. normalize_response parse rawText = Inr r
           \<and> title r = read_prop v ''title'' \<and> description r = read_prop v ''description''
           \<and> brand r = read_prop v ''brand'' \<and> category r = read_prop v ''category''
           \<and> color r = read_prop v ''color'' \<and> condition r = read_prop v ''condition''
           \<and> season r = read_prop v ''season''))
   \<and> (parse rawText = Inr JNull \<longrightarrow> normalize_response parse rawText = Inl (null_read ''title''))
   \<and> (generateContent env request = Inr (Some rawText) \<and> rawText \<noteq> []
        \<and> JSON_parse env rawText = Inl ex \<longrightarrow>
        ai_phase env request = \<lparr>status = 500, body = ErrorBody (errorMessage ex) None\<rparr>)"
proof (intro conjI impI)
  assume "parse rawText = Inl ex"
  then show "normalize_response parse rawText = Inl ex"
    by (simp add: normalize_response_def)
next
  assume "parse rawText = Inr v \<and> v \<noteq> JNull"
  then show "\<exists>r. normalize_response parse rawText = Inr r
           \<and> title r = read_prop v ''title'' \<and> description r = read_prop v ''description''
           \<and> brand r = read_prop v ''brand'' \<and> category r = read_prop v ''category''
           \<and> color r = read_prop v ''color'' \<and> condition r = read_prop v ''condition''
           \<and> season r = read_prop v ''season''"
    using analysisResult_of_not_null [of v] by (simp add: normalize_response_def)
next
  assume "parse rawText = Inr JNull"
  then show "normalize_response parse rawText = Inl (null_read ''title'')"
    by (simp add: normalize_response_def analysisResult_of_def)
next
  assume "generateContent env request = Inr (Some rawText) \<and> rawText \<noteq> []
            \<and> JSON_parse env rawText = Inl ex"
  then show "ai_phase env request = \<lparr>status = 500, body = ErrorBody (errorMessage ex) None\<rparr>"
    by (simp add: ai_phase_def ai_try_def normalize_response_def)
qed

theorem normalize_failure_modes_witness:
  "sample_JSON_parse ''{not json'' = Inl sample_syntax_error
   \<and> normalize_response sample_JSON_parse ''{not json'' = Inl sample_syntax_error
   \<and> sample_JSON_parse no_title_text = Inr no_title_object \<and> no_title_object \<noteq> JNull
   \<and> (\<exists>r. normalize_response sample_JSON_parse no_title_text = Inr r
          \<and> title r = None \<and> brand r = Some (JStr []))
   \<and> sample_JSON_parse ''null'' = Inr JNull
   \<and> normalize_response sample_JSON_parse ''null'' = Inl (null_read ''title'')
   \<and> ai_phase (sample_env_ai (\<lambda>request. Inr (Some ''{not json'')))
        \<lparr>prompt = ''PROMPT'', parts = []\<rparr>
      = \<lparr>status = 500,
         body = ErrorBody
           ''Erreur lors de l'analyse avec Gemini: Expected property name or '}' in JSON at position 1 (line 1 column 2)''
           None\<rparr>"
proof -
  let ?env = "sample_env_ai (\<lambda>request. Inr (Some ''{not json''))"
  let ?request = "\<lparr>prompt = ''PROMPT'', parts = []\<rparr>"
  note inst1 = normalize_failure_modes [of sample_JSON_parse "''{not json''" sample_syntax_error
                no_title_object ?env ?request]
  note inst2 = normalize_failure_modes [of sample_JSON_parse no_title_text sample_syntax_error
                no_title_object ?env ?request]
  note inst3 = normalize_failure_modes [of sample_JSON_parse "''null''" sample_syntax_error
                 no_title_object ?env ?request]
  have p1: "sample_JSON_parse ''{not json'' = Inl sample_syntax_error"
    and p2: "sample_JSON_parse no_title_text = Inr no_title_object"
    and p3: "sample_JSON_parse ''null'' = Inr JNull"
    by (simp_all add: sample_parse_simps)
  have n: "normalize_response sample_JSON_parse ''null'' = Inl (null_read ''title'')"
    using inst3 p3 by blast
  have nn: "no_title_object \<noteq> JNull"
    by (simp add: no_title_object_def)
  have g: "generateContent ?env ?request = Inr (Some ''{not json'') \<and> ''{not json'' \<noteq> []
             \<and> JSON_parse ?env ''{not json'' = Inl sample_syntax_error"
    by (simp add: sample_env_ai_def p1)
  have a: "normalize_response sample_JSON_parse ''{not json'' = Inl sample_syntax_error"
    using inst1 p1 by blast
  have b: "\<exists>r. normalize_response sample_JSON_parse no_title_text = Inr r
              \<and> title r = read_prop no_title_object ''title''
              \<and> brand r = read_prop no_title_object ''brand''"
    using inst2 p2 nn by blast
  have c: "ai_phase ?env ?request
             = \<lparr>status = 500, body = ErrorBody (errorMessage sample_syntax_error) None\<rparr>"
    using inst1 g by blast
  have props: "read_prop no_title_object ''title'' = None"
    "read_prop no_title_object ''brand'' = Some (JStr [])"
    by (simp_all add: no_title_object_def)
  show ?thesis
    using p1 p2 p3 nn a b c n unfolding props sample_syntax_error_message by blast
qed

text \<open>
  C5. On a JSON object, lines 432--452 return a result whose sixteen fields are the values
  the object has under their names, unchanged, and \<^verbatim>\<open>undefined\<close> for the names it lacks.
  On the object of the specification those are its seven values, and every optional
  field is \<^verbatim>\<open>undefined\<close>.
\<close>

theorem normalize_copies_fields:
  assumes "parse rawText = Inr (JObj kvs)"
  shows "normalize_response parse rawText =
           Inr \<lparr>title = map_of kvs ''title'',
                description = map_of kvs ''description'',
                brand = map_of kvs ''brand'',
                category = map_of kvs ''category'',
                subcategory = map_of kvs ''subcategory'',
                color = map_of kvs ''color'',
                material = map_of kvs ''material'',
                size' = map_of kvs ''size'',
                condition = map_of kvs ''condition'',
                season = map_of kvs ''season'',
                suggestedPeriod = map_of kvs ''suggestedPeriod'',
                estimatedPrice = map_of kvs ''estimatedPrice'',
                seoKeywords = map_of kvs ''seoKeywords'',
                hashtags = map_of kvs ''hashtags'',
                searchTerms = map_of kvs ''searchTerms'',
                confidenceScore = map_of kvs ''confidenceScore''\<rparr>"
  using assms by (simp add: normalize_response_def analysisResult_of_def)

theorem normalize_copies_fields_witness:
  "sample_JSON_parse sample_text = Inr sample_object
   \<and> normalize_response sample_JSON_parse sample_text =
       Inr \<lparr>title = Some (JStr ''T''),
            description = Some (JStr ''D''),
            brand = Some (JStr ''B''),
            category = Some (JStr ''tops''),
            subcategory = None,
            color = Some (JStr ''Noir''),
            material = None,
            size' = None,
            condition = Some (JStr ''good''),
            season = Some (JStr ''summer''),
            suggestedPeriod = None,
            estimatedPrice = None,
            seoKeywords = None,
            hashtags = None,
            searchTerms = None,
            confidenceScore = None\<rparr>"
  using normalize_copies_fields [of sample_JSON_parse sample_text
      "[(''title'', JStr ''T''), (''description'', JStr ''D''), (''brand'', JStr ''B''),
        (''category'', JStr ''tops''), (''color'', JStr ''Noir''),
        (''condition'', JStr ''good''), (''season'', JStr ''summer'')]"]
  by (simp add: sample_parse_simps sample_object_def)

text \<open>
  C6. The two \<^verbatim>\<open>catch\<close> blocks test the message of the error in this order. A message
  that contains \<^verbatim>\<open>quota\<close> or \<^verbatim>\<open>RESOURCE_EXHAUSTED\<close> gives the quota message; otherwise a
  message that contains \<^verbatim>\<open>API key\<close> gives the credentials message; any other error is
  unknown, and its message is kept: the edge function answers with
  \<^verbatim>\<open>Erreur lors de l'analyse avec Gemini: \<close> followed by the message, and
  \<^verbatim>\<open>analyzeProductImage\<close> throws the error again. The handler shows the message of the
  edge function to the caller with status 500.
\<close>

theorem error_classification:
  "(message_includes e ''quota'' \<or> message_includes e ''RESOURCE_EXHAUSTED'' \<longrightarrow>
      errorMessage e = quota_message
      \<and> analyzeProductImage_catch e = ErrorObject client_quota_message)
   \<and> (\<not> message_includes e ''quota'' \<and> \<not> message_includes e ''RESOURCE_EXHAUSTED''
        \<and> message_includes e ''API key'' \<longrightarrow>
      errorMessage e = api_key_message
      \<and> analyzeProductImage_catch e = ErrorObject client_api_key_message)
   \<and> (\<not> message_includes e ''quota'' \<and> \<not> message_includes e ''RESOURCE_EXHAUSTED''
        \<and> \<not> message_includes e ''API key'' \<longrightarrow>
      errorMessage e =
        (case message_of e of
           None \<Rightarrow> gemini_base_message
         | Some m \<Rightarrow> if m = [] then gemini_base_message else gemini_base_message @ '': '' @ m)
      \<and> (\<forall>m. message_of e = Some m \<longrightarrow> str_includes (errorMessage e) m)
      \<and> analyzeProductImage_catch e = e)
   \<and> (ai_try env request = Inl e \<longrightarrow>
      ai_phase env request = \<lparr>status = 500, body = ErrorBody (errorMessage e) None\<rparr>)"
proof -
  have "str_includes (errorMessage e) m"
    if "message_of e = Some m" "\<not> message_includes e ''quota''"
       "\<not> message_includes e ''RESOURCE_EXHAUSTED''" "\<not> message_includes e ''API key''" for m
  proof (cases "m = []")
    case True
    then show ?thesis by (cases "errorMessage e") simp_all
  next
    case False
    then have "errorMessage e = (gemini_base_message @ '': '') @ m"
      using that by (simp add: errorMessage_def)
    then show ?thesis
      using str_includes_append [of "gemini_base_message @ '': ''" m] by simp
  qed
  then show ?thesis
    by (auto simp: errorMessage_def analyzeProductImage_catch_def ai_phase_def)
qed

theorem error_classification_witness:
  "errorMessage (ErrorObject ''RESOURCE_EXHAUSTED'') = quota_message
   \<and> errorMessage (ErrorObject ''invalid API key'') = api_key_message
   \<and> errorMessage (ErrorObject ''network down'')
       = ''Erreur lors de l'analyse avec Gemini: network down''
   \<and> analyzeProductImage_catch (ErrorObject ''network down'') = ErrorObject ''network down''
   \<and> ai_phase (sample_env_ai (\<lambda>request. Inl (ErrorObject ''network down'')))
        \<lparr>prompt = ''PROMPT'', parts = []\<rparr>
      = \<lparr>status = 500,
         body = ErrorBody ''Erreur lors de l'analyse avec Gemini: network down'' None\<rparr>"
proof -
  let ?env = "sample_env_ai (\<lambda>request. Inl (ErrorObject ''network down''))"
  let ?request = "\<lparr>prompt = ''PROMPT'', parts = []\<rparr>"
  have i1: "message_includes (ErrorObject ''RESOURCE_EXHAUSTED'') ''RESOURCE_EXHAUSTED''"
    by (simp add: message_includes_def)
  have i2: "\<not> message_includes (ErrorObject ''invalid API key'') ''quota''"
    "\<not> message_includes (ErrorObject ''invalid API key'') ''RESOURCE_EXHAUSTED''"
    "message_includes (ErrorObject ''invalid API key'') ''API key''"
    by (simp_all add: message_includes_def)
  have i3: "\<not> message_includes (ErrorObject ''network down'') ''quota''"
    "\<not> message_includes (ErrorObject ''network down'') ''RESOURCE_EXHAUSTED''"
    "\<not> message_includes (ErrorObject ''network down'') ''API key''"
    by (simp_all add: message_includes_def)
  have t: "ai_try ?env ?request = Inl (ErrorObject ''network down'')"
    by (simp add: ai_try_def sample_env_ai_def)
  have m: "gemini_base_message @ '': '' @ ''network down''
             = ''Erreur lors de l'analyse avec Gemini: network down''"
    by (simp add: gemini_base_message_def)
  show ?thesis
    using error_classification [of "ErrorObject ''RESOURCE_EXHAUSTED''" ?env ?request]
      error_classification [of "ErrorObject ''invalid API key''" ?env ?request]
      error_classification [of "ErrorObject ''network down''" ?env ?request]
      i1 i2 i3 t m
    by simp
qed

text \<open>
  C7. For every request in which every reference fails, the handler should answer 400
  with an error string and at most the first three diagnostics, without calling the AI
  service. It does so whenever the loop ends with \<^verbatim>\<open>imageParts\<close> empty
  (\<open>all_images_failed_after_loop\<close>). It does not when the loop throws: for the request
  whose only reference is \<^verbatim>\<open>{"toString":1}\<close>, the reference fails, the exception of
  line 188 leaves the loop before the guard of line 194, and the handler answers 500 from
  the outer \<^verbatim>\<open>catch\<close>, without details. The AI service is not called.
\<close>

theorem all_failed_object_answers_500:
  "handler sample_env (sample_request [url_object]) =
     \<lparr>response =
        \<lparr>status = 500,
         body = ErrorBody ''Erreur serveur: Cannot convert object to primitive value'' None\<rparr>,
      ai_calls = []\<rparr>"
proof -
  have ing: "ingest sample_env [url_object]
               = Inl (ErrorObject ''Cannot convert object to primitive value'')"
    by (simp add: ingest_def sample_env_process)
  show ?thesis
    using sample_handler_loop_throws [OF _ ing] by simp
qed

text \<open>
  C8, as stated, fails: the outer \<^verbatim>\<open>catch\<close> puts the message of any internal exception
  in the response. A request whose body is not valid JSON is answered with
  \<^verbatim>\<open>Erreur serveur: \<close> followed by the message of the parser, and the AI service was
  never called.
\<close>

theorem raw_error_text_counterexample:
  "handler sample_env
     \<lparr>req_method = ''POST'', authorization = Some ''Bearer good'',
      body_json = Inl (ErrorObject ''Unexpected end of JSON input'')\<rparr> =
     \<lparr>response =
        \<lparr>status = 500,
         body = ErrorBody ''Erreur serveur: Unexpected end of JSON input'' None\<rparr>,
      ai_calls = []\<rparr>"
  by (simp add: handler_def try_body_def analyze_def respond_def sample_env_def sample_env_ai_def)

text \<open>
  C8, amended. Every request other than the \<^verbatim>\<open>OPTIONS\<close> preflight is answered with a
  structured response: on every error path, a body with an error string and status 400,
  401 or 500. The error string is a fixed message, or \<^verbatim>\<open>Erreur serveur: \<close> followed by
  the message of the exception that reached the outer \<^verbatim>\<open>catch\<close>, or
  \<^verbatim>\<open>Erreur lors de l'analyse avec Gemini: \<close> followed by the message of the exception of
  the AI phase; the details, if any, are at most three messages of the loop.
\<close>

theorem handler_structured:
  "(req_method req \<noteq> ''OPTIONS'' \<longrightarrow> structured (response (handler env req)))
   \<and> (req_method req \<noteq> ''OPTIONS'' \<and> try_body env req = Inl error \<longrightarrow>
        handler env req =
          \<lparr>response =
             \<lparr>status = 500,
              body = ErrorBody
                (''Erreur serveur: '' @ or_else (message_of error) ''Unknown error'') None\<rparr>,
           ai_calls = []\<rparr>)"
proof (intro conjI impI)
  assume m: "req_method req \<noteq> ''OPTIONS''"
  show "structured (response (handler env req))"
  proof (cases "try_body env req")
    case (Inl error)
    then show ?thesis
      using m by (simp add: handler_def respond_def structured_def starts_with_def)
  next
    case (Inr out)
    then show ?thesis
      using m structured_try_body [OF Inr] by (simp add: handler_def)
  qed
next
  assume "req_method req \<noteq> ''OPTIONS'' \<and> try_body env req = Inl error"
  then show "handler env req =
          \<lparr>response =
             \<lparr>status = 500,
              body = ErrorBody
                (''Erreur serveur: '' @ or_else (message_of error) ''Unknown error'') None\<rparr>,
           ai_calls = []\<rparr>"
    by (simp add: handler_def respond_def)
qed

theorem handler_structured_witness:
  "structured (response (handler sample_env
      \<lparr>req_method = ''POST'', authorization = Some ''Bearer good'', body_json = Inr JNull\<rparr>))
   \<and> handler sample_env
      \<lparr>req_method = ''POST'', authorization = Some ''Bearer good'', body_json = Inr JNull\<rparr> =
     \<lparr>response =
        \<lparr>status = 500,
         body = ErrorBody
           ''Erreur serveur: Cannot destructure property 'imageUrls' of '(intermediate value)' as it is null.''
           None\<rparr>,
      ai_calls = []\<rparr>"
proof -
  let ?req = "\<lparr>req_method = ''POST'', authorization = Some ''Bearer good'', body_json = Inr JNull\<rparr>"
  note inst = handler_structured [of ?req sample_env destructure_error]
  have t: "try_body sample_env ?req = Inl destructure_error"
    by (simp add: try_body_def analyze_def sample_env_def sample_env_ai_def)
  have m: "req_method ?req \<noteq> ''OPTIONS''"
    by simp
  have s: "structured (response (handler sample_env ?req))"
    using inst m by blast
  have h: "handler sample_env ?req =
     \<lparr>response =
        \<lparr>status = 500,
         body = ErrorBody
           (''Erreur serveur: '' @ or_else (message_of destructure_error) ''Unknown error'')
           None\<rparr>,
      ai_calls = []\<rparr>"
    using inst m t by blast
  have msg: "''Erreur serveur: '' @ or_else (message_of destructure_error) ''Unknown error''
      = ''Erreur serveur: Cannot destructure property 'imageUrls' of '(intermediate value)' as it is null.''"
    by (simp add: destructure_error_def)
  show ?thesis
    using s h unfolding msg by blast
qed

text \<open>
  C9, as stated, fails for the \<^verbatim>\<open>OPTIONS\<close> preflight, which is answered 200 before the
  API key is looked at.
\<close>

theorem options_before_api_key_counterexample:
  "handler (sample_env\<lparr>GEMINI_API_KEY := None\<rparr>)
     \<lparr>req_method = ''OPTIONS'', authorization = None, body_json = Inr JNull\<rparr> =
     \<lparr>response = \<lparr>status = 200, body = NoBody\<rparr>, ai_calls = []\<rparr>"
  by (simp add: handler_def respond_def)

text \<open>
  C9, amended. For every request other than the \<^verbatim>\<open>OPTIONS\<close> preflight, when
  \<^verbatim>\<open>GEMINI_API_KEY\<close> is unset or empty the handler answers 500 with the configuration
  message, whatever the \<^verbatim>\<open>Authorization\<close> header and the authentication service say.
\<close>

theorem api_key_check_first:
  assumes "req_method req \<noteq> ''OPTIONS''" and "\<not> truthy_str (GEMINI_API_KEY env)"
  shows "handler env req =
           \<lparr>response =
              \<lparr>status = 500,
               body = ErrorBody
                 ''La cle API Gemini n'est pas configuree. Veuillez configurer GEMINI_API_KEY dans les secrets de votre projet Supabase.''
                 None\<rparr>,
            ai_calls = []\<rparr>"
  using assms by (simp add: handler_def try_body_def respond_def)

theorem api_key_check_first_witness:
  "handler (sample_env\<lparr>GEMINI_API_KEY := None\<rparr>)
     \<lparr>req_method = ''POST'', authorization = None, body_json = Inr JNull\<rparr> =
     \<lparr>response =
        \<lparr>status = 500,
         body = ErrorBody
           ''La cle API Gemini n'est pas configuree. Veuillez configurer GEMINI_API_KEY dans les secrets de votre projet Supabase.''
           None\<rparr>,
      ai_calls = []\<rparr>"
  by (rule api_key_check_first) simp_all

end
